theory Spec2Isabelle
  imports Main "HOL-Library.Sublist"
begin

section \<open>Python values\<close>

text \<open>
  A Python \<open>str\<close> is a sequence of Unicode code points, so \<open>len\<close> is \<open>length\<close> and a
  slice is \<open>take\<close>/\<open>drop\<close>. ASCII literals of the source are written \<open>ascii ''...''\<close>;
  the other literals are given by their code points.
\<close>

type_synonym pystr = "nat list"

definition ascii :: "string \<Rightarrow> pystr" where
  "ascii s = map of_char s"

text \<open>
  Values that \<open>json.loads\<close> returns and that the summarizer and the sender put into
  their result dicts. JSON numbers are the integers; a dict is an association list,
  looked up with \<open>map_of\<close>.
\<close>

datatype pyval =
    PNone
  | PBool bool
  | PInt int
  | PStr pystr
  | PList "pyval list"
  | PDict "(pystr \<times> pyval) list"

type_synonym pydict = "(pystr \<times> pyval) list"

text \<open>\<open>d.get(k, default)\<close>\<close>

definition dict_get :: "pydict \<Rightarrow> pystr \<Rightarrow> pyval \<Rightarrow> pyval" where
  "dict_get d k dflt = (case map_of d k of None \<Rightarrow> dflt | Some v \<Rightarrow> v)"

text \<open>Truth value of an object, as \<open>if x\<close>, \<open>not x\<close> and \<open>x or y\<close> test it.\<close>

fun truthy :: "pyval \<Rightarrow> bool" where
  "truthy PNone = False"
| "truthy (PBool b) = b"
| "truthy (PInt i) = (i \<noteq> 0)"
| "truthy (PStr s) = (s \<noteq> [])"
| "truthy (PList xs) = (xs \<noteq> [])"
| "truthy (PDict d) = (d \<noteq> [])"

text \<open>Lists and dicts are unhashable: using one as a dict key raises \<open>TypeError\<close>.\<close>

fun hashable :: "pyval \<Rightarrow> bool" where
  "hashable (PList xs) = False"
| "hashable (PDict d) = False"
| "hashable v = True"

text \<open>
  \<open>str(n)\<close> for an integer, and \<open>str(v)\<close> as an f-string formats a value. The
  summarizer formats hashable values only (a list or a dict is refused as a dict key
  before it would be formatted), so the last equation is never used.
\<close>

fun digits :: "nat \<Rightarrow> pystr" where
  "digits n = (if n < 10 then [48 + n] else digits (n div 10) @ [48 + n mod 10])"

declare digits.simps [simp del]

definition str_int :: "int \<Rightarrow> pystr" where
  "str_int i = (if i < 0 then ascii ''-'' @ digits (nat (- i)) else digits (nat i))"

fun py_str :: "pyval \<Rightarrow> pystr" where
  "py_str PNone = ascii ''None''"
| "py_str (PBool b) = (if b then ascii ''True'' else ascii ''False'')"
| "py_str (PInt i) = str_int i"
| "py_str (PStr s) = s"
| "py_str v = []"

text \<open>
  \<open>str.strip()\<close> removes the characters for which \<open>str.isspace()\<close> holds from both ends.
\<close>

definition py_isspace :: "nat \<Rightarrow> bool" where
  "py_isspace c \<longleftrightarrow>
     (9 \<le> c \<and> c \<le> 13) \<or> (28 \<le> c \<and> c \<le> 32) \<or> c = 133 \<or> c = 160 \<or> c = 5760 \<or>
     (8192 \<le> c \<and> c \<le> 8202) \<or> c = 8232 \<or> c = 8233 \<or> c = 8239 \<or> c = 8287 \<or> c = 12288"

definition py_strip :: "pystr \<Rightarrow> pystr" where
  "py_strip s = rev (dropWhile py_isspace (rev (dropWhile py_isspace s)))"

text \<open>\<open>sep.join(xs)\<close>\<close>

fun py_join :: "pystr \<Rightarrow> pystr list \<Rightarrow> pystr" where
  "py_join sep [] = []"
| "py_join sep [x] = x"
| "py_join sep (x # y # ys) = x @ sep @ py_join sep (y # ys)"

text \<open>\<open>xs[:n]\<close> for an integer \<open>n\<close> of either sign.\<close>

definition slice_to :: "int \<Rightarrow> 'a list \<Rightarrow> 'a list" where
  "slice_to n xs = (if 0 \<le> n then take (nat n) xs else take (length xs - nat (- n)) xs)"

text \<open>
  The exceptions that the code of the summarizer, the sender and the site generator
  raises by itself: \<open>len(None)\<close> and \<open>None > 0\<close> raise \<open>TypeError\<close>, a method call on
  \<open>None\<close> raises \<open>AttributeError\<close>, \<open>[][0]\<close> raises \<open>IndexError\<close>.
\<close>

datatype py_error = TypeError | AttributeError | IndexError

text \<open>
  A loop \<open>for x in xs: out.append(f(x))\<close> whose body may raise: the first element that
  raises ends the loop with its exception.
\<close>

fun map_raising :: "('a \<Rightarrow> py_error + 'b) \<Rightarrow> 'a list \<Rightarrow> py_error + 'b list" where
  "map_raising f [] = Inr []"
| "map_raising f (x # xs) =
     (case f x of
        Inl e \<Rightarrow> Inl e
      | Inr y \<Rightarrow> (case map_raising f xs of Inl e \<Rightarrow> Inl e | Inr ys \<Rightarrow> Inr (y # ys)))"

section \<open>Repository dicts\<close>

text \<open>
  The dicts that the fetcher produces, the engine enriches and the store returns. The key
  \<open>repo_name\<close> is always there and a string. Every other key is read with \<open>.get\<close>: it
  may be absent, or hold \<open>None\<close> (the null of the GitHub API and of the response of the
  model), or hold a value of its type.
\<close>

datatype 'a field = Absent | PyNone | Val 'a

record repo =
  repo_name :: pystr
  name :: "pystr field"
  description :: "pystr field"
  language :: "pystr field"
  topics :: "pystr list field"
  readme_summary :: "pystr field"
  owner :: "pystr field"
  url :: "pystr field"
  stars :: "int field"
  stars_delta :: "int field"
  summary :: "pystr field"
  category :: "pystr field"
  category_zh :: "pystr field"

text \<open>
  \<open>repo.get(key)\<close> and \<open>repo.get(key, default)\<close>: the value, where \<open>None\<close> is Python's
  \<open>None\<close>. The default stands in for an absent key only, not for a key that holds
  \<open>None\<close>.
\<close>

fun get :: "'a field \<Rightarrow> 'a option" where
  "get Absent = None"
| "get PyNone = None"
| "get (Val v) = Some v"

fun get_or :: "'a \<Rightarrow> 'a field \<Rightarrow> 'a option" where
  "get_or dflt Absent = Some dflt"
| "get_or dflt PyNone = None"
| "get_or dflt (Val v) = Some v"

text \<open>An optional string as a value, as \<open>if s\<close> tests it, and as an f-string formats it.\<close>

fun opt_val :: "pystr option \<Rightarrow> pyval" where
  "opt_val None = PNone"
| "opt_val (Some s) = PStr s"

fun truthy_str :: "pystr option \<Rightarrow> bool" where
  "truthy_str None = False"
| "truthy_str (Some s) = (s \<noteq> [])"

fun fmt_opt :: "pystr option \<Rightarrow> pystr" where
  "fmt_opt None = ascii ''None''"
| "fmt_opt (Some s) = s"

text \<open>How an f-string formats an optional integer.\<close>

fun fmt_int :: "int option \<Rightarrow> pystr" where
  "fmt_int None = ascii ''None''"
| "fmt_int (Some i) = str_int i"

text \<open>
  \<open>CATEGORIES\<close> of \<open>src/config.py\<close> (not part of the sources at hand): an ordered dict
  from category key to an info dict with the keys \<open>name\<close>, \<open>icon\<close> and \<open>description\<close>.
  It is a parameter of everything that reads it.
\<close>

record category_info =
  cat_name :: pystr
  cat_icon :: pystr
  cat_description :: pystr

type_synonym categories = "(pystr \<times> category_info) list"

section \<open>AI summarizer (\<open>src/ai_summarizer.py\<close>)\<close>

text \<open>\<open>get_category_list\<close>: \<open>{key: info["name"] for key, info in CATEGORIES.items()}\<close>\<close>

definition get_category_list :: "categories \<Rightarrow> (pystr \<times> pystr) list" where
  "get_category_list cats = map (\<lambda>(key, info). (key, cat_name info)) cats"

text \<open>The default name of the category \<open>other\<close>: the two characters U+5176 U+4ED6.\<close>

definition other_zh :: pystr where
  "other_zh = [0x5176, 0x4ED6]"

text \<open>\<open>REPO_CATEGORIES.get(category, other_zh)\<close>\<close>

definition category_name :: "categories \<Rightarrow> pystr \<Rightarrow> pystr" where
  "category_name cats key =
     (case map_of (get_category_list cats) key of None \<Rightarrow> other_zh | Some n \<Rightarrow> n)"

subsection \<open>\<open>_fallback_summaries\<close>\<close>

text \<open>
  \<open>repo.get("repo_name") or repo.get("name", "unknown")\<close>: the name of the record is
  \<open>None\<close> when \<open>repo_name\<close> is empty and \<open>name\<close> holds \<open>None\<close>.
\<close>

definition fallback_repo_name :: "repo \<Rightarrow> pyval" where
  "fallback_repo_name r =
     (if repo_name r \<noteq> [] then PStr (repo_name r)
      else opt_val (get_or (ascii ''unknown'') (name r)))"

text \<open>\<open>description[:50] + "..." if len(description) > 50 else description\<close>\<close>

definition fallback_summary :: "pystr \<Rightarrow> pystr" where
  "fallback_summary d = (if length d > 50 then take 50 d @ ascii ''...'' else d)"

text \<open>
  The body of the loop for one repository. \<open>repo.get("language", "").lower()\<close> raises
  \<open>AttributeError\<close> when the language is \<open>None\<close> (its result is not used); after it,
  \<open>len(description)\<close> raises \<open>TypeError\<close> when the description is \<open>None\<close>.
\<close>

definition fallback_record :: "categories \<Rightarrow> repo \<Rightarrow> py_error + pydict" where
  "fallback_record cats r =
     (let repo_name_v = fallback_repo_name r;
          description_v = get_or [] (description r);
          category_v = ascii ''other''
      in case get_or [] (language r) of
           None \<Rightarrow> Inl AttributeError
         | Some language_v \<Rightarrow>
             (case description_v of
                None \<Rightarrow> Inl TypeError
              | Some d \<Rightarrow>
                  Inr [(ascii ''repo_name'', repo_name_v),
                       (ascii ''summary'', PStr (fallback_summary d)),
                       (ascii ''description'', PStr d),
                       (ascii ''category'', PStr category_v),
                       (ascii ''category_zh'', PStr (category_name cats category_v)),
                       (ascii ''fallback'', PBool True)]))"

text \<open>The loop over the repositories.\<close>

definition fallback_summaries :: "categories \<Rightarrow> repo list \<Rightarrow> py_error + pydict list" where
  "fallback_summaries cats repos = map_raising (fallback_record cats) repos"

subsection \<open>\<open>_parse_batch_response\<close>\<close>

text \<open>Removing the Markdown code fence around the response text.\<close>

definition strip_fences :: "pystr \<Rightarrow> pystr" where
  "strip_fences result_text =
     (let t1 = py_strip result_text;
          t2 = (if prefix (ascii ''```json'') t1 then drop 7 t1
                else if prefix (ascii ''```'') t1 then drop 3 t1
                else t1);
          t3 = (if suffix (ascii ''```'') t2 then take (length t2 - 3) t2 else t2)
      in py_strip t3)"

text \<open>
  \<open>original_map = {r.get("repo_name") or r.get("name"): r for r in original_repos}\<close>:
  the key of a repository is its \<open>repo_name\<close>, or its \<open>name\<close> (Python's \<open>None\<close> when
  there is none) when \<open>repo_name\<close> is empty; a later repository replaces an earlier
  one with the same key.
\<close>

definition original_key :: "repo \<Rightarrow> pystr option" where
  "original_key r = (if repo_name r \<noteq> [] then Some (repo_name r) else get (name r))"

definition original_map :: "repo list \<Rightarrow> pystr \<Rightarrow> repo option" where
  "original_map original_repos k =
     (case filter (\<lambda>r. original_key r = Some k) original_repos of
        [] \<Rightarrow> None
      | r # rs \<Rightarrow> Some (last (r # rs)))"

text \<open>
  \<open>original_map.get(repo_name, {})\<close> for the \<open>repo_name\<close> of a response item: a
  value that is not a string is the key of no repository.
\<close>

definition lookup_original :: "repo list \<Rightarrow> pyval \<Rightarrow> repo option" where
  "lookup_original original_repos v =
     (case v of PStr k \<Rightarrow> original_map original_repos k | _ \<Rightarrow> None)"

text \<open>
  \<open>original.get(key, "")\<close> and \<open>original.get("topics", [])\<close>, where \<open>original\<close> may be
  \<open>{}\<close>; a key that holds \<open>None\<close> gives \<open>None\<close>.
\<close>

definition original_str :: "repo option \<Rightarrow> (repo \<Rightarrow> pystr field) \<Rightarrow> pyval" where
  "original_str original key =
     (case original of None \<Rightarrow> PStr [] | Some r \<Rightarrow> opt_val (get_or [] (key r)))"

definition original_topics :: "repo option \<Rightarrow> pyval" where
  "original_topics original =
     (case original of
        None \<Rightarrow> PList []
      | Some r \<Rightarrow>
          (case get_or [] (topics r) of None \<Rightarrow> PNone | Some ts \<Rightarrow> PList (map PStr ts)))"

text \<open>The end of the default summary: a space and the two characters U+9879 U+76EE.\<close>

definition project_suffix :: pystr where
  "project_suffix = [32, 0x9879, 0x76EE]"

definition validated_result :: "categories \<Rightarrow> repo list \<Rightarrow> pydict \<Rightarrow> pyval \<Rightarrow> pydict" where
  "validated_result cats original_repos result repo_name_v =
     (let original = lookup_original original_repos repo_name_v
      in [(ascii ''repo_name'', repo_name_v),
          (ascii ''summary'',
             dict_get result (ascii ''summary'') (PStr (py_str repo_name_v @ project_suffix))),
          (ascii ''description'', dict_get result (ascii ''description'') (PStr [])),
          (ascii ''use_case'', dict_get result (ascii ''use_case'') (PStr [])),
          (ascii ''solves'', dict_get result (ascii ''solves'') (PList [])),
          (ascii ''category'', dict_get result (ascii ''category'') (PStr (ascii ''other''))),
          (ascii ''category_zh'',
             dict_get result (ascii ''category_zh'') (PStr (category_name cats (ascii ''other'')))),
          (ascii ''tech_stack'', dict_get result (ascii ''tech_stack'') (PList [])),
          (ascii ''language'', original_str original language),
          (ascii ''topics'', original_topics original),
          (ascii ''readme_summary'', original_str original readme_summary),
          (ascii ''owner'', original_str original owner),
          (ascii ''url'', original_str original url)])"

text \<open>
  The loop over the parsed results. An item that is not a dict, or whose \<open>repo_name\<close> is
  missing or falsy, is skipped. A truthy \<open>repo_name\<close> that is a list or a dict makes
  \<open>original_map.get\<close> raise \<open>TypeError\<close>, which is not a \<open>JSONDecodeError\<close> and leaves
  the function (\<open>Inl\<close>).
\<close>

fun validate_results :: "categories \<Rightarrow> repo list \<Rightarrow> pyval list \<Rightarrow> py_error + pydict list" where
  "validate_results cats original_repos [] = Inr []"
| "validate_results cats original_repos (PDict result # results) =
     (let repo_name_v = dict_get result (ascii ''repo_name'') PNone
      in if \<not> truthy repo_name_v then validate_results cats original_repos results
         else if \<not> hashable repo_name_v then Inl TypeError
         else (case validate_results cats original_repos results of
                 Inl e \<Rightarrow> Inl e
               | Inr vs \<Rightarrow> Inr (validated_result cats original_repos result repo_name_v # vs)))"
| "validate_results cats original_repos (v # results) =
     validate_results cats original_repos results"

text \<open>
  \<open>json.loads\<close> is the standard library's: a parameter, \<open>None\<close> when it raises
  \<open>JSONDecodeError\<close>.
\<close>

type_synonym json_loads = "pystr \<Rightarrow> pyval option"

definition parse_batch_response ::
  "categories \<Rightarrow> json_loads \<Rightarrow> pystr \<Rightarrow> repo list \<Rightarrow> py_error + pydict list" where
  "parse_batch_response cats loads result_text original_repos =
     (case loads (strip_fences result_text) of
        None \<Rightarrow> fallback_summaries cats original_repos
      | Some results \<Rightarrow>
          validate_results cats original_repos
            (case results of PList xs \<Rightarrow> xs | v \<Rightarrow> [v]))"

subsection \<open>\<open>summarize_and_classify\<close>\<close>

text \<open>
  The outcome of the chat completion request and of reading
  \<open>response.choices[0].message.content\<close>: an exception (of class \<open>Exception\<close>, with its
  message), or the content, which the API may leave \<open>None\<close>. The prompt that
  \<open>_build_batch_prompt\<close> builds only feeds the request.
\<close>

datatype api_outcome = ApiRaises pystr | ApiContent "pystr option"

text \<open>
  An exception inside the \<open>try\<close> block is caught by \<open>except Exception\<close>, whose handler
  returns \<open>_fallback_summaries(repos)\<close>; what the handler raises leaves the function.
\<close>

definition summarize_and_classify ::
  "categories \<Rightarrow> api_outcome \<Rightarrow> json_loads \<Rightarrow> repo list \<Rightarrow> py_error + pydict list" where
  "summarize_and_classify cats api loads repos =
     (if repos = [] then Inr []
      else (case api of
              ApiRaises e \<Rightarrow> fallback_summaries cats repos
            | ApiContent None \<Rightarrow> fallback_summaries cats repos
            | ApiContent (Some result_text) \<Rightarrow>
                (case parse_batch_response cats loads result_text repos of
                   Inl e \<Rightarrow> fallback_summaries cats repos
                 | Inr results \<Rightarrow> Inr results)))"

section \<open>Trend result\<close>

text \<open>
  The dict that \<open>calculate_trends\<close> returns and that the sender, the site generator and
  the driver read. The repository lists are always there; \<open>topic\<close> is read with a default.
\<close>

record trend_result =
  topic :: "pystr option"
  top_20 :: "repo list"
  rising_top5 :: "repo list"
  new_entries :: "repo list"
  dropped_entries :: "repo list"
  surging :: "repo list"
  active :: "repo list"

section \<open>Telegram sender (\<open>src/telegram_sender.py\<close>)\<close>



subsection \<open>\<open>_format_repo_line\<close>\<close>

text \<open>\<open>delta > 0\<close> raises \<open>TypeError\<close> when \<open>stars_delta\<close> holds \<open>None\<close>.\<close>

definition format_repo_line :: "repo \<Rightarrow> py_error + pystr" where
  "format_repo_line r =
     (let name_v = repo_name r;
          url_v = get (url r);
          stars_v = get_or 0 (stars r)
      in case get_or 0 (stars_delta r) of
           None \<Rightarrow> Inl TypeError
         | Some delta \<Rightarrow>
             (let delta_str = (if delta > 0 then ascii ''+'' @ str_int delta else str_int delta)
              in Inr ([0x2022] @ ascii '' ['' @ name_v @ ascii ''](''  @ fmt_opt url_v @
                      ascii '') '' @ [0x2B50] @ fmt_int stars_v @ ascii '' ('' @ delta_str @
                      ascii '')'')))"

subsection \<open>\<open>_format_repo_item\<close>\<close>

text \<open>
  \<open>repo.get("summary", "") or repo.get("description", "")\<close>: the summary when it is a
  non-empty string, else what the description key gives, which may be \<open>None\<close>.
\<close>

definition summary_or_description :: "repo \<Rightarrow> pystr option" where
  "summary_or_description r =
     (if truthy_str (get_or [] (summary r)) then get_or [] (summary r)
      else get_or [] (description r))"

text \<open>
  The icon of the item at position \<open>index\<close>, counted from 1: a medal for the first three
  (\<open>[...][index-1]\<close>, where index 0 would read the last medal), a diamond after them.
\<close>

definition item_icon :: "nat \<Rightarrow> pystr" where
  "item_icon index =
     (if index \<le> 3
      then [[0x1F947], [0x1F948], [0x1F949]] ! (if index = 0 then 2 else index - 1)
      else [0x1F539])"

text \<open>\<open>len(summary)\<close> raises \<open>TypeError\<close> when the summary is \<open>None\<close>.\<close>

definition format_repo_item :: "nat \<Rightarrow> repo \<Rightarrow> py_error + pystr" where
  "format_repo_item index r =
     (let name_v = repo_name r;
          url_v = get (url r);
          category_v = get_or [] (category_zh r)
      in case summary_or_description r of
           None \<Rightarrow> Inl TypeError
         | Some summary0 \<Rightarrow>
             (let summary1 = (if length summary0 > 60 then take 57 summary0 @ ascii ''...''
                              else summary0);
                  line0 = item_icon index @ ascii '' *['' @ name_v @ ascii ''](''  @
                          fmt_opt url_v @ ascii '')*'';
                  line1 = (if truthy_str category_v
                           then line0 @ ascii '' `['' @ fmt_opt category_v @ ascii '']`''
                           else line0)
              in Inr (line1 @ ascii ''\<newline>  _'' @ summary1 @ ascii ''_'')))"

subsection \<open>\<open>_format_report\<close>\<close>

definition report_header :: "trend_result \<Rightarrow> pystr \<Rightarrow> pystr list" where
  "report_header trends date =
     [[0x1F525] @ ascii '' *GitHub Topics Trending* `#'' @
        (case topic trends of None \<Rightarrow> ascii ''unknown'' | Some t \<Rightarrow> t) @ ascii ''`'',
      [0x1F4C5] @ ascii '' *'' @ date @ ascii ''*'',
      []]"

definition report_rising :: "trend_result \<Rightarrow> py_error + pystr list" where
  "report_rising trends =
     (let rising = rising_top5 trends
      in if rising \<noteq> []
         then (case map_raising format_repo_line rising of
                 Inl e \<Rightarrow> Inl e
               | Inr rising_lines \<Rightarrow>
                   Inr ([[0x1F680] @ ascii '' *'' @ [0x4ECA, 0x65E5, 0x98D9, 0x5347] @ ascii ''*''] @
                        rising_lines @ [[]]))
         else Inr [])"

definition report_new :: "trend_result \<Rightarrow> py_error + pystr list" where
  "report_new trends =
     (let new5 = take 5 (new_entries trends)
      in if new5 \<noteq> []
         then (case map_raising format_repo_line new5 of
                 Inl e \<Rightarrow> Inl e
               | Inr new_lines \<Rightarrow>
                   Inr ([[0x2728] @ ascii '' *'' @ [0x65B0, 0x664B, 0x9879, 0x76EE] @ ascii ''*''] @
                        new_lines @ [[]]))
         else Inr [])"

definition report_top :: "trend_result \<Rightarrow> py_error + pystr list" where
  "report_top trends =
     (let top_list = take 10 (top_20 trends)
      in if top_list \<noteq> []
         then (case map_raising (\<lambda>(i, r). format_repo_item i r) (List.enumerate 1 top_list) of
                 Inl e \<Rightarrow> Inl e
               | Inr top_lines \<Rightarrow>
                   Inr ([[0x1F3C6] @ ascii '' *'' @ [0x70ED, 0x95E8, 0x7CBE, 0x9009] @ ascii ''*''] @
                        top_lines))
         else Inr [])"

definition report_footer :: "pystr list" where
  "report_footer =
     [[],
      ascii ''['' @
      [0x67E5, 0x770B, 0x5B8C, 0x6574, 0x62A5, 0x544A, 0x53CA, 0x66F4, 0x591A, 0x5206, 0x7C7B] @
      ascii ''](https://james5-cell.github.io/github-topics-trending/)'']"

text \<open>The sections are formatted in this order; a line that raises ends the function.\<close>

definition format_report :: "trend_result \<Rightarrow> pystr \<Rightarrow> py_error + pystr" where
  "format_report trends date =
     (case report_rising trends of
        Inl e \<Rightarrow> Inl e
      | Inr rising_lines \<Rightarrow>
          (case report_new trends of
             Inl e \<Rightarrow> Inl e
           | Inr new_lines \<Rightarrow>
               (case report_top trends of
                  Inl e \<Rightarrow> Inl e
                | Inr top_lines \<Rightarrow>
                    Inr (py_join (ascii ''\<newline>'')
                           (report_header trends date @ rising_lines @ new_lines @
                            top_lines @ report_footer)))))"

subsection \<open>\<open>send_message\<close> and \<open>send_report\<close>\<close>









section \<open>Pipeline driver (\<open>src/main.py\<close>)\<close>

text \<open>
  What a call can raise, as the driver tells it apart: \<open>KeyboardInterrupt\<close>, or an
  exception of class \<open>Exception\<close> with its message.
\<close>

datatype py_exception = KeyboardInterrupt | Exception pystr

text \<open>The configuration values of \<open>src/config.py\<close> that \<open>main\<close> reads, and the date of the run.\<close>

record config =
  GITHUB_TOKEN :: pystr
  NVIDIA_API_KEY :: pystr
  TELEGRAM_BOT_TOKEN :: pystr
  TELEGRAM_CHAT_ID :: pystr
  DEDUPLICATE_DAYS :: int
  DB_RETENTION_DAYS :: int
  TOP_N_DETAILS :: int
  today :: pystr

text \<open>
  The map \<open>{s["repo_name"]: s for s in ai_summaries}\<close>. Keys are compared as Python
  compares them (\<open>True == 1\<close>); a summary without the key raises \<open>KeyError\<close>, an
  unhashable key raises \<open>TypeError\<close>.
\<close>

type_synonym summary_map = "(pyval \<times> pydict) list"

fun key_norm :: "pyval \<Rightarrow> pyval" where
  "key_norm (PBool b) = PInt (if b then 1 else 0)"
| "key_norm v = v"

fun map_set :: "pyval \<Rightarrow> pydict \<Rightarrow> summary_map \<Rightarrow> summary_map" where
  "map_set k v [] = [(k, v)]"
| "map_set k v ((k', v') # m) =
     (if key_norm k = key_norm k' then (k', v) # m else (k', v') # map_set k v m)"

fun build_summary_map :: "summary_map \<Rightarrow> pydict list \<Rightarrow> py_exception + summary_map" where
  "build_summary_map m [] = Inr m"
| "build_summary_map m (s # ss) =
     (case map_of s (ascii ''repo_name'') of
        None \<Rightarrow> Inl (Exception (ascii ''KeyError''))
      | Some k \<Rightarrow>
          (if hashable k then build_summary_map (map_set k s m) ss
           else Inl (Exception (ascii ''TypeError''))))"

text \<open>
  The collaborators whose code the driver calls: the store (\<open>Database\<close>), the fetchers,
  the summarizer, the engine (\<open>TrendAnalyzer\<close>), the reporters and the site generator.
  Each call either raises or returns; what it does is a parameter of the run, a
  function of the arguments the driver passes. Creating a collaborator object is part
  of the first call on it; \<open>Database(DB_PATH)\<close> is the call \<open>new_database\<close>.
\<close>

record collaborators =
  new_database :: "py_exception option"
  init_db :: "py_exception option"
  fetch :: "py_exception + repo list"
  batch_fetch_readmes :: "repo list \<Rightarrow> py_exception + (pystr \<times> pystr) list"
  summarize :: "repo list \<Rightarrow> py_exception + pydict list"
  save_repo_details :: "pydict list \<Rightarrow> py_exception option"
  calculate_trends ::
    "repo list \<Rightarrow> pystr \<Rightarrow> summary_map \<Rightarrow> int \<Rightarrow> py_exception + trend_result"
  generate_email_html :: "trend_result \<Rightarrow> pystr \<Rightarrow> py_exception option"
  telegram_send_report :: "trend_result \<Rightarrow> pystr \<Rightarrow> py_exception + pydict"
  record_notification :: "pystr list \<Rightarrow> py_exception option"
  generate_all :: "trend_result \<Rightarrow> pystr \<Rightarrow> py_exception + pystr list"
  cleanup_old_data :: "int \<Rightarrow> py_exception + int"
  close :: "py_exception option"

text \<open>The calls the driver makes, in the order it makes them, with their arguments.\<close>

datatype event =
    CallDatabase
  | CallInitDb
  | CallFetch
  | CallBatchFetchReadmes "repo list"
  | CallSummarize "repo list"
  | CallSaveRepoDetails "pydict list"
  | CallCalculateTrends "repo list" pystr summary_map int
  | CallGenerateEmailHtml trend_result pystr
  | CallSendReport trend_result pystr
  | CallRecordNotification "pystr list"
  | CallGenerateAll trend_result pystr
  | CallCleanupOldData int
  | CallClose

type_synonym 'a step = "event list \<times> (py_exception + 'a)"

text \<open>A call that returns a value, and one that returns nothing.\<close>

definition call :: "event \<Rightarrow> py_exception + 'a \<Rightarrow> 'a step" where
  "call ev outcome = ([ev], outcome)"

definition call_unit :: "event \<Rightarrow> py_exception option \<Rightarrow> unit step" where
  "call_unit ev outcome = ([ev], case outcome of None \<Rightarrow> Inr () | Some e \<Rightarrow> Inl e)"

text \<open>Sequencing: the statements after a call run only when it has returned.\<close>

definition and_then :: "'a step \<Rightarrow> ('a \<Rightarrow> 'b step) \<Rightarrow> 'b step" where
  "and_then m f =
     (case m of
        (tr, Inl e) \<Rightarrow> (tr, Inl e)
      | (tr, Inr x) \<Rightarrow> (case f x of (tr', r) \<Rightarrow> (tr @ tr', r)))"

definition check_environment :: "config \<Rightarrow> bool" where
  "check_environment cfg \<longleftrightarrow>
     GITHUB_TOKEN cfg \<noteq> [] \<and> NVIDIA_API_KEY cfg \<noteq> [] \<and>
     TELEGRAM_BOT_TOKEN cfg \<noteq> [] \<and> TELEGRAM_CHAT_ID cfg \<noteq> []"

text \<open>
  Merging the README summaries into the first \<open>TOP_N_DETAILS\<close> repositories. The dicts of
  \<open>top_repos\<close> are those of \<open>today_repos\<close>, so the merge shows in both lists.
\<close>

definition merge_readme :: "(pystr \<times> pystr) list \<Rightarrow> repo \<Rightarrow> repo" where
  "merge_readme readme_summaries r =
     (case map_of readme_summaries (repo_name r) of
        None \<Rightarrow> r
      | Some text \<Rightarrow> r\<lparr>readme_summary := Val text\<rparr>)"

text \<open>
  Steps 1 to 5 of the \<open>try\<close> block: fetch, README summaries, AI analysis, saving the
  details, trend computation.
\<close>

definition steps_1_to_5 :: "config \<Rightarrow> collaborators \<Rightarrow> trend_result step" where
  "steps_1_to_5 cfg env =
     and_then (call CallFetch (fetch env)) (\<lambda>today_repos0.
     let top_repos0 = slice_to (TOP_N_DETAILS cfg) today_repos0 in
     and_then (call (CallBatchFetchReadmes top_repos0) (batch_fetch_readmes env top_repos0))
       (\<lambda>readme_summaries.
     let top_repos = map (merge_readme readme_summaries) top_repos0;
         today_repos = top_repos @ drop (length top_repos0) today_repos0 in
     and_then (call (CallSummarize top_repos) (summarize env top_repos)) (\<lambda>ai_summaries.
     and_then ([], build_summary_map [] ai_summaries) (\<lambda>ai_summary_map.
     and_then (call_unit (CallSaveRepoDetails ai_summaries) (save_repo_details env ai_summaries))
       (\<lambda>_.
     call (CallCalculateTrends today_repos (today cfg) ai_summary_map (DEDUPLICATE_DAYS cfg))
       (calculate_trends env today_repos (today cfg) ai_summary_map (DEDUPLICATE_DAYS cfg)))))))"

text \<open>Step 6: the HTML report.\<close>

definition step_6 :: "config \<Rightarrow> collaborators \<Rightarrow> trend_result \<Rightarrow> unit step" where
  "step_6 cfg env trends =
     call_unit (CallGenerateEmailHtml trends (today cfg))
       (generate_email_html env trends (today cfg))"

text \<open>\<open>[r["repo_name"] for r in trends.get("top_20", [])]\<close>\<close>

definition notified_repos :: "trend_result \<Rightarrow> pystr list" where
  "notified_repos trends = map repo_name (top_20 trends)"

text \<open>
  Step 7: the Telegram notification. \<open>result["success"]\<close> raises \<open>KeyError\<close> when the
  key is missing.
\<close>

definition step_7 :: "config \<Rightarrow> collaborators \<Rightarrow> trend_result \<Rightarrow> unit step" where
  "step_7 cfg env trends =
     and_then (call (CallSendReport trends (today cfg)) (telegram_send_report env trends (today cfg)))
       (\<lambda>result.
     case map_of result (ascii ''success'') of
       None \<Rightarrow> ([], Inl (Exception (ascii ''KeyError'')))
     | Some success \<Rightarrow>
         (if truthy success
          then (if notified_repos trends \<noteq> []
                then call_unit (CallRecordNotification (notified_repos trends))
                       (record_notification env (notified_repos trends))
                else ([], Inr ()))
          else ([], Inr ())))"

text \<open>Steps 8 and 9: the site and the cleanup.\<close>

definition steps_8_to_9 :: "config \<Rightarrow> collaborators \<Rightarrow> trend_result \<Rightarrow> unit step" where
  "steps_8_to_9 cfg env trends =
     and_then (call (CallGenerateAll trends (today cfg)) (generate_all env trends (today cfg)))
       (\<lambda>web_files.
     and_then (call (CallCleanupOldData (DB_RETENTION_DAYS cfg))
                 (cleanup_old_data env (DB_RETENTION_DAYS cfg)))
       (\<lambda>deleted. ([], Inr ())))"

definition try_body :: "config \<Rightarrow> collaborators \<Rightarrow> unit step" where
  "try_body cfg env =
     and_then (steps_1_to_5 cfg env) (\<lambda>trends.
     and_then (step_6 cfg env trends) (\<lambda>_.
     and_then (step_7 cfg env trends) (\<lambda>_.
     steps_8_to_9 cfg env trends)))"

text \<open>
  How \<open>main\<close> ends: it returns, or \<open>sys.exit(code)\<close> leaves it, or an exception that
  nothing catches does.
\<close>

datatype ending = Returned | SysExit int | Uncaught py_exception

text \<open>
  The \<open>try\<close> statement: \<open>KeyboardInterrupt\<close> exits with 130, any other exception with 1;
  \<open>finally\<close> calls \<open>db.close()\<close> whatever happened, and an exception of \<open>close\<close>
  replaces the exit under way.
\<close>

definition try_statement :: "config \<Rightarrow> collaborators \<Rightarrow> event list \<times> ending" where
  "try_statement cfg env =
     (case try_body cfg env of (tr, r) \<Rightarrow>
        (let handled = (case r of
                          Inr _ \<Rightarrow> Returned
                        | Inl KeyboardInterrupt \<Rightarrow> SysExit 130
                        | Inl (Exception e) \<Rightarrow> SysExit 1)
         in (tr @ [CallClose],
             case close env of None \<Rightarrow> handled | Some e \<Rightarrow> Uncaught e)))"

definition main :: "config \<Rightarrow> collaborators \<Rightarrow> event list \<times> ending" where
  "main cfg env =
     (if \<not> check_environment cfg then ([], SysExit 1)
      else (case new_database env of
              Some e \<Rightarrow> ([CallDatabase], Uncaught e)
            | None \<Rightarrow>
                (case init_db env of
                   Some e \<Rightarrow> ([CallDatabase, CallInitDb], Uncaught e)
                 | None \<Rightarrow>
                     (case try_statement cfg env of (tr, e) \<Rightarrow>
                        ([CallDatabase, CallInitDb] @ tr, e)))))"


section \<open>Site generator (\<open>src/web_generator.py\<close>)\<close>








subsection \<open>\<open>_get_base_html\<close>\<close>


subsection \<open>\<open>_format_repo_card\<close>\<close>




subsection \<open>\<open>_format_repo_list_item\<close>\<close>



subsection \<open>\<open>_format_category_card\<close>\<close>



subsection \<open>Writing files\<close>


subsection \<open>\<open>generate_index\<close>\<close>



subsection \<open>\<open>generate_trending_page\<close>\<close>



subsection \<open>\<open>generate_category_pages\<close>\<close>





subsection \<open>\<open>generate_css\<close>\<close>



subsection \<open>\<open>generate_all\<close>\<close>


section \<open>Store and engine: notification log and top picks\<close>




text \<open>
  Modelled from the spec: the enrichment data of a repository (\<open>RepositoryDetail\<close>), as
  far as an enriched entry carries it.
\<close>

record detail =
  detail_summary :: pystr
  detail_description :: pystr
  detail_category :: pystr
  detail_category_zh :: pystr

text \<open>
  Modelled from the spec: step 1 of \<open>calculate_trends\<close> (\<open>src/trend_analyzer.py\<close> is not
  part of the sources at hand). An entry with a counterpart in the enrichment map takes
  its summary and classification; one without falls back to its raw metadata, with the
  truncated description as summary and the category \<open>other\<close>. The truncation is the
  parameter \<open>shorten\<close>.
\<close>

definition enrich :: "(pystr \<Rightarrow> pystr) \<Rightarrow> (pystr \<Rightarrow> detail option) \<Rightarrow> repo \<Rightarrow> repo" where
  "enrich shorten enrichment_map entry =
     (case enrichment_map (repo_name entry) of
        Some d \<Rightarrow>
          entry\<lparr>summary := Val (detail_summary d),
                description := Val (detail_description d),
                category := Val (detail_category d),
                category_zh := Val (detail_category_zh d)\<rparr>
      | None \<Rightarrow>
          entry\<lparr>summary := Val (shorten (case get_or [] (description entry) of
                                              None \<Rightarrow> [] | Some d \<Rightarrow> d)),
                category := Val (ascii ''other'')\<rparr>)"


section \<open>Sample data\<close>

text \<open>A repository dict with the key \<open>repo_name\<close> only, and the categories of the examples.\<close>

definition plain_repo :: "pystr \<Rightarrow> repo" where
  "plain_repo n =
     \<lparr>repo_name = n, name = Absent, description = Absent, language = Absent,
      topics = Absent, readme_summary = Absent, owner = Absent, url = Absent, stars = Absent,
      stars_delta = Absent, summary = Absent, category = Absent, category_zh = Absent\<rparr>"

definition sample_categories :: categories where
  "sample_categories =
     [(ascii ''plugin'', \<lparr>cat_name = ascii ''Plugins'', cat_icon = ascii ''P'',
                          cat_description = ascii ''Plugins and extensions''\<rparr>),
      (ascii ''tool'', \<lparr>cat_name = ascii ''Tools'', cat_icon = ascii ''T'',
                        cat_description = ascii ''Developer tools''\<rparr>),
      (ascii ''other'', \<lparr>cat_name = ascii ''Other'', cat_icon = ascii ''O'',
                         cat_description = ascii ''Everything else''\<rparr>)]"


text \<open>A response of the model whose category is none of the categories.\<close>

definition banana_response :: pyval where
  "banana_response =
     PList [PDict [(ascii ''repo_name'', PStr (ascii ''a/b'')),
                   (ascii ''summary'', PStr (ascii ''A tool'')),
                   (ascii ''category'', PStr (ascii ''banana''))]]"

text \<open>
  The items of a parsed response from which a record is built: the dicts with a truthy
  \<open>repo_name\<close>, in the order of the response.
\<close>

fun kept_items :: "pyval list \<Rightarrow> pydict list" where
  "kept_items [] = []"
| "kept_items (PDict result # rest) =
     (if truthy (dict_get result (ascii ''repo_name'') PNone) then result # kept_items rest
      else kept_items rest)"
| "kept_items (v # rest) = kept_items rest"

text \<open>The keys of a record built from a response item, and those of a fallback record.\<close>

definition parsed_keys :: "pystr list" where
  "parsed_keys =
     [ascii ''repo_name'', ascii ''summary'', ascii ''description'', ascii ''use_case'',
      ascii ''solves'', ascii ''category'', ascii ''category_zh'', ascii ''tech_stack'',
      ascii ''language'', ascii ''topics'', ascii ''readme_summary'', ascii ''owner'', ascii ''url'']"

definition fallback_keys :: "pystr list" where
  "fallback_keys =
     [ascii ''repo_name'', ascii ''summary'', ascii ''description'', ascii ''category'',
      ascii ''category_zh'', ascii ''fallback'']"

text \<open>
  A name occurs in the message of a formatted report; no name occurs when the
  formatting raised.
\<close>

fun shown_in :: "pystr \<Rightarrow> py_error + pystr \<Rightarrow> bool" where
  "shown_in n (Inr message) = sublist n message"
| "shown_in n (Inl e) = False"

text \<open>
  Trend results: one with eleven top picks and a rising repository that is no top pick,
  one with two top picks, and one whose rising repository has the star delta \<open>None\<close>.
\<close>

definition eleven_picks :: trend_result where
  "eleven_picks =
     \<lparr>topic = Some (ascii ''claude-code''),
      top_20 = map plain_repo
        [ascii ''o/r01'', ascii ''o/r02'', ascii ''o/r03'', ascii ''o/r04'', ascii ''o/r05'',
         ascii ''o/r06'', ascii ''o/r07'', ascii ''o/r08'', ascii ''o/r09'', ascii ''o/r10'',
         ascii ''o/k11''],
      rising_top5 = [plain_repo (ascii ''w/v'')],
      new_entries = [], dropped_entries = [], surging = [], active = []\<rparr>"



definition two_picks :: trend_result where
  "two_picks =
     \<lparr>topic = Some (ascii ''claude-code''),
      top_20 = [plain_repo (ascii ''a/b''), plain_repo (ascii ''c/d'')],
      rising_top5 = [], new_entries = [], dropped_entries = [], surging = [], active = []\<rparr>"

text \<open>The step of \<open>main\<close> a call belongs to: 0 before the \<open>try\<close> block, 10 for \<open>finally\<close>.\<close>

fun step_of :: "event \<Rightarrow> nat" where
  "step_of CallDatabase = 0"
| "step_of CallInitDb = 0"
| "step_of CallFetch = 1"
| "step_of (CallBatchFetchReadmes top_repos) = 2"
| "step_of (CallSummarize top_repos) = 3"
| "step_of (CallSaveRepoDetails ai_summaries) = 4"
| "step_of (CallCalculateTrends today_repos date ai_summary_map days) = 5"
| "step_of (CallGenerateEmailHtml trends date) = 6"
| "step_of (CallSendReport trends date) = 7"
| "step_of (CallRecordNotification names) = 7"
| "step_of (CallGenerateAll trends date) = 8"
| "step_of (CallCleanupOldData days) = 9"
| "step_of CallClose = 10"

text \<open>
  The run gets to step 7 with the trend result \<open>trends\<close>: the environment check passes,
  the store opens, steps 1 to 5 return \<open>trends\<close> and step 6 returns.
\<close>

definition reaches_step_7 :: "config \<Rightarrow> collaborators \<Rightarrow> trend_result \<Rightarrow> bool" where
  "reaches_step_7 cfg env trends \<longleftrightarrow>
     check_environment cfg \<and> new_database env = None \<and> init_db env = None \<and>
     snd (steps_1_to_5 cfg env) = Inr trends \<and>
     generate_email_html env trends (today cfg) = None"

text \<open>
  A configuration, and collaborators that all return; then the same with a Telegram
  send that fails, with a fetch that raises, and with a store whose \<open>init_db\<close> raises.
\<close>

definition sample_config :: config where
  "sample_config =
     \<lparr>GITHUB_TOKEN = ascii ''ghp'', NVIDIA_API_KEY = ascii ''nv'',
      TELEGRAM_BOT_TOKEN = ascii ''bot'', TELEGRAM_CHAT_ID = ascii ''42'',
      DEDUPLICATE_DAYS = 7, DB_RETENTION_DAYS = 90, TOP_N_DETAILS = 50,
      today = ascii ''2026-01-15''\<rparr>"

definition quiet_env :: collaborators where
  "quiet_env =
     \<lparr>new_database = None, init_db = None,
      fetch = Inr [plain_repo (ascii ''a/b''), plain_repo (ascii ''c/d'')],
      batch_fetch_readmes = (\<lambda>top_repos. Inr []),
      summarize = (\<lambda>top_repos. Inr []),
      save_repo_details = (\<lambda>ai_summaries. None),
      calculate_trends = (\<lambda>today_repos date ai_summary_map days. Inr two_picks),
      generate_email_html = (\<lambda>trends date. None),
      telegram_send_report = (\<lambda>trends date. Inr [(ascii ''success'', PBool True)]),
      record_notification = (\<lambda>names. None),
      generate_all = (\<lambda>trends date. Inr []),
      cleanup_old_data = (\<lambda>days. Inr 0),
      close = None\<rparr>"

definition failing_send_env :: collaborators where
  "failing_send_env =
     quiet_env\<lparr>telegram_send_report :=
       (\<lambda>trends date. Inr [(ascii ''success'', PBool False),
                            (ascii ''message'', PStr (ascii ''Bad Request''))])\<rparr>"


definition failing_init_env :: collaborators where
  "failing_init_env =
     quiet_env\<lparr>init_db := Some (Exception (ascii ''unable to open database file''))\<rparr>"





section \<open>Properties of the AI summarizer\<close>

lemma ascii_inj [simp]: "ascii a = ascii b \<longleftrightarrow> a = b"
  unfolding ascii_def using inj_of_char[where 'a=nat] by (simp add: inj_eq inj_map_eq_map)

lemma ascii_Nil [simp]: "ascii s = [] \<longleftrightarrow> s = []" "[] = ascii s \<longleftrightarrow> s = []"
  by (auto simp: ascii_def)

lemma map_raising_Inr:
  "map_raising f xs = Inr ys \<longleftrightarrow> list_all2 (\<lambda>x y. f x = Inr y) xs ys"
proof (induction xs arbitrary: ys)
  case Nil
  then show ?case by auto
next
  case (Cons x xs)
  show ?case
  proof (cases "f x")
    case (Inl e)
    then show ?thesis by (auto simp: list_all2_Cons1)
  next
    case (Inr y)
    with Cons show ?thesis
      by (cases "map_raising f xs") (auto simp: list_all2_Cons1)
  qed
qed

lemma map_raising_Inl:
  "(\<exists>e. map_raising f xs = Inl e) \<longleftrightarrow> (\<exists>x \<in> set xs. \<exists>e. f x = Inl e)"
proof (induction xs)
  case Nil
  then show ?case by simp
next
  case (Cons x xs)
  show ?case
  proof (cases "f x")
    case (Inl e)
    then show ?thesis by auto
  next
    case (Inr y)
    with Cons show ?thesis
      by (cases "map_raising f xs") auto
  qed
qed


lemma map_raising_member:
  assumes "map_raising f xs = Inr ys" and "y \<in> set ys"
  shows "\<exists>x \<in> set xs. f x = Inr y"
proof -
  from assms(1) have l: "length xs = length ys" and n: "\<forall>i < length xs. f (xs ! i) = Inr (ys ! i)"
    by (simp_all add: map_raising_Inr list_all2_conv_all_nth)
  from assms(2) obtain i where "i < length ys" "ys ! i = y" by (auto simp: in_set_conv_nth)
  with l n have "xs ! i \<in> set xs" "f (xs ! i) = Inr y" by auto
  then show ?thesis by blast
qed

lemma map_raising_image:
  assumes "map_raising f xs = Inr ys" and "x \<in> set xs"
  shows "\<exists>y \<in> set ys. f x = Inr y"
proof -
  from assms(1) have l: "length xs = length ys" and n: "\<forall>i < length xs. f (xs ! i) = Inr (ys ! i)"
    by (simp_all add: map_raising_Inr list_all2_conv_all_nth)
  from assms(2) obtain i where "i < length xs" "xs ! i = x" by (auto simp: in_set_conv_nth)
  with l n have "ys ! i \<in> set ys" "f x = Inr (ys ! i)" by auto
  then show ?thesis by blast
qed

lemma validated_result_keys:
  "map fst (validated_result cats repos result v) = parsed_keys"
  by (simp add: validated_result_def parsed_keys_def Let_def)

lemma validated_result_category:
  "map_of (validated_result cats repos result v) (ascii ''category'') =
     Some (dict_get result (ascii ''category'') (PStr (ascii ''other'')))"
  by (simp add: validated_result_def Let_def)

lemma validated_result_repo_name:
  "map_of (validated_result cats repos result v) (ascii ''repo_name'') = Some v"
  by (simp add: validated_result_def Let_def)

lemma validate_results_kept:
  "validate_results cats repos items = Inr ds \<Longrightarrow>
   ds = map (\<lambda>item. validated_result cats repos item (dict_get item (ascii ''repo_name'') PNone))
          (kept_items items)"
proof (induction cats repos items arbitrary: ds rule: validate_results.induct)
  case (1 cats repos)
  then show ?case by simp
next
  case (2 cats repos result results)
  let ?v = "dict_get result (ascii ''repo_name'') PNone"
  show ?case
  proof (cases "truthy ?v")
    case False
    with "2.prems" have "validate_results cats repos results = Inr ds"
      by (simp add: Let_def)
    from "2.IH"(1)[OF refl False this] False show ?thesis by simp
  next
    case True
    with "2.prems"(1) have h: "hashable ?v"
      by (auto simp: Let_def split: if_splits)
    with True "2.prems"(1) obtain vs where
      vs: "validate_results cats repos results = Inr vs"
      and ds: "ds = validated_result cats repos result ?v # vs"
      by (auto simp: Let_def split: sum.splits)
    have nn: "\<not> \<not> truthy ?v" using True by simp
    have hh: "\<not> \<not> hashable ?v" using h by simp
    from "2.IH"(2)[OF refl nn hh vs] ds True show ?thesis by simp
  qed
qed auto

lemma kept_item_repo_name:
  "item \<in> set (kept_items items) \<Longrightarrow>
   map_of item (ascii ''repo_name'') = Some (dict_get item (ascii ''repo_name'') PNone)"
proof (induction items rule: kept_items.induct)
  case 1
  then show ?case by simp
next
  case (2 result rest)
  show ?case
  proof (cases "item = result")
    case True
    show ?thesis
    proof (cases "map_of result (ascii ''repo_name'')")
      case None
      then have "\<not> truthy (dict_get result (ascii ''repo_name'') PNone)"
        by (simp add: dict_get_def)
      with "2.prems" "2.IH"(2) True show ?thesis by simp
    next
      case (Some v)
      with True show ?thesis by (simp add: dict_get_def)
    qed
  next
    case False
    with 2 show ?thesis by (simp split: if_splits)
  qed
qed simp_all

lemma fallback_record_keys:
  "fallback_record cats r = Inr d \<Longrightarrow> map fst d = fallback_keys"
  by (auto simp: fallback_record_def fallback_keys_def Let_def split: option.splits)

lemma fallback_record_category:
  "fallback_record cats r = Inr d \<Longrightarrow>
   map_of d (ascii ''category'') = Some (PStr (ascii ''other''))"
  by (auto simp: fallback_record_def Let_def split: option.splits)







lemma summarize_cases:
  assumes "summarize_and_classify cats api loads repos = Inr ds"
  shows "fallback_summaries cats repos = Inr ds \<or>
   (\<exists>t results. api = ApiContent (Some t) \<and> loads (strip_fences t) = Some results \<and>
      validate_results cats repos (case results of PList xs \<Rightarrow> xs | v \<Rightarrow> [v]) = Inr ds)"
proof (cases "repos = []")
  case True
  with assms show ?thesis by (simp add: summarize_and_classify_def fallback_summaries_def)
next
  case False
  with assms show ?thesis
    by (auto simp: summarize_and_classify_def parse_batch_response_def
             split: api_outcome.splits option.splits sum.splits)
qed

text \<open>
  Claim C5, as amended. Every record that \<open>summarize_and_classify\<close> returns has the key
  \<open>repo_name\<close> and the fields \<open>summary\<close>, \<open>description\<close>, \<open>category\<close> and
  \<open>category_zh\<close>. A record built from a response item has \<open>tech_stack\<close>, \<open>solves\<close>
  and \<open>use_case\<close> as well (its keys are \<open>parsed_keys\<close>); a record of the degraded path,
  the fallback record of an input repository, has none of the three (its keys are
  \<open>fallback_keys\<close>).
\<close>

theorem C5_output_shape:
  "summarize_and_classify cats api loads repos = Inr ds \<Longrightarrow> d \<in> set ds \<Longrightarrow>
     map fst d = parsed_keys \<or>
     ((\<exists>r \<in> set repos. fallback_record cats r = Inr d) \<and> map fst d = fallback_keys)"
proof -
  assume r: "summarize_and_classify cats api loads repos = Inr ds" and d: "d \<in> set ds"
  from summarize_cases[OF r] show ?thesis
  proof
    assume "fallback_summaries cats repos = Inr ds"
    then have "map_raising (fallback_record cats) repos = Inr ds"
      by (simp add: fallback_summaries_def)
    from map_raising_member[OF this d] obtain x where
      "x \<in> set repos" "fallback_record cats x = Inr d" by blast
    then show ?thesis using fallback_record_keys by blast
  next
    assume "\<exists>t results. api = ApiContent (Some t) \<and> loads (strip_fences t) = Some results \<and>
      validate_results cats repos (case results of PList xs \<Rightarrow> xs | v \<Rightarrow> [v]) = Inr ds"
    then obtain items where "validate_results cats repos items = Inr ds" by blast
    from validate_results_kept[OF this] d show ?thesis
      by (auto simp: validated_result_keys)
  qed
qed

text \<open>The record of the degraded path for one repository.\<close>

theorem C5_output_shape_witness:
  "summarize_and_classify sample_categories (ApiRaises (ascii ''timeout'')) (\<lambda>t. None)
     [plain_repo (ascii ''a/b'')] =
     Inr [[(ascii ''repo_name'', PStr (ascii ''a/b'')), (ascii ''summary'', PStr []),
           (ascii ''description'', PStr []), (ascii ''category'', PStr (ascii ''other'')),
           (ascii ''category_zh'', PStr (ascii ''Other'')), (ascii ''fallback'', PBool True)]] \<and>
   map fst [(ascii ''repo_name'', PStr (ascii ''a/b'')), (ascii ''summary'', PStr []),
            (ascii ''description'', PStr []), (ascii ''category'', PStr (ascii ''other'')),
            (ascii ''category_zh'', PStr (ascii ''Other'')), (ascii ''fallback'', PBool True)]
     = fallback_keys"
proof -
  let ?d = "[(ascii ''repo_name'', PStr (ascii ''a/b'')), (ascii ''summary'', PStr []),
            (ascii ''description'', PStr []), (ascii ''category'', PStr (ascii ''other'')),
            (ascii ''category_zh'', PStr (ascii ''Other'')), (ascii ''fallback'', PBool True)]"
  have r: "summarize_and_classify sample_categories (ApiRaises (ascii ''timeout'')) (\<lambda>t. None)
     [plain_repo (ascii ''a/b'')] = Inr [?d]"
    by (simp add: summarize_and_classify_def fallback_summaries_def fallback_record_def
          fallback_repo_name_def fallback_summary_def category_name_def get_category_list_def
          sample_categories_def plain_repo_def Let_def)
  have m: "?d \<in> set [?d]" by simp
  have "map fst ?d \<noteq> parsed_keys" by (simp add: parsed_keys_def)
  with C5_output_shape[OF r m] r show ?thesis by blast
qed

text \<open>
  Claim C5 as stated fails on the degraded path: the record returned when the API call
  raises has neither \<open>tech_stack\<close> nor \<open>solves\<close> nor \<open>use_case\<close>.
\<close>

theorem C5_counterexample:
  "summarize_and_classify sample_categories (ApiRaises (ascii ''timeout'')) (\<lambda>t. None)
     [plain_repo (ascii ''a/b'')] =
     Inr [[(ascii ''repo_name'', PStr (ascii ''a/b'')), (ascii ''summary'', PStr []),
           (ascii ''description'', PStr []), (ascii ''category'', PStr (ascii ''other'')),
           (ascii ''category_zh'', PStr (ascii ''Other'')), (ascii ''fallback'', PBool True)]] \<and>
   ascii ''tech_stack'' \<notin> set (map fst
     [(ascii ''repo_name'', PStr (ascii ''a/b'')), (ascii ''summary'', PStr []),
      (ascii ''description'', PStr []), (ascii ''category'', PStr (ascii ''other'')),
      (ascii ''category_zh'', PStr (ascii ''Other'')), (ascii ''fallback'', PBool True)]) \<and>
   ascii ''solves'' \<notin> set (map fst
     [(ascii ''repo_name'', PStr (ascii ''a/b'')), (ascii ''summary'', PStr []),
      (ascii ''description'', PStr []), (ascii ''category'', PStr (ascii ''other'')),
      (ascii ''category_zh'', PStr (ascii ''Other'')), (ascii ''fallback'', PBool True)]) \<and>
   ascii ''use_case'' \<notin> set (map fst
     [(ascii ''repo_name'', PStr (ascii ''a/b'')), (ascii ''summary'', PStr []),
      (ascii ''description'', PStr []), (ascii ''category'', PStr (ascii ''other'')),
      (ascii ''category_zh'', PStr (ascii ''Other'')), (ascii ''fallback'', PBool True)])"
  by (simp add: summarize_and_classify_def fallback_summaries_def fallback_record_def
        fallback_repo_name_def fallback_summary_def category_name_def get_category_list_def
        sample_categories_def plain_repo_def Let_def)

text \<open>
  Claim C4 as stated fails: a response item whose category is \<open>banana\<close>, which is no
  category key, gives a record with the category \<open>banana\<close>.
\<close>

theorem C4_counterexample:
  "parse_batch_response sample_categories (\<lambda>t. Some banana_response) (ascii ''[...]'')
     [plain_repo (ascii ''a/b'')] =
   Inr [[(ascii ''repo_name'', PStr (ascii ''a/b'')),
         (ascii ''summary'', PStr (ascii ''A tool'')),
         (ascii ''description'', PStr []),
         (ascii ''use_case'', PStr []),
         (ascii ''solves'', PList []),
         (ascii ''category'', PStr (ascii ''banana'')),
         (ascii ''category_zh'', PStr (ascii ''Other'')),
         (ascii ''tech_stack'', PList []),
         (ascii ''language'', PStr []),
         (ascii ''topics'', PList []),
         (ascii ''readme_summary'', PStr []),
         (ascii ''owner'', PStr []),
         (ascii ''url'', PStr [])]] \<and>
   ascii ''banana'' \<notin> set (map fst sample_categories)"
  by (simp add: parse_batch_response_def banana_response_def validated_result_def Let_def
        dict_get_def lookup_original_def original_map_def original_key_def plain_repo_def
        original_str_def original_topics_def category_name_def
        get_category_list_def sample_categories_def)

text \<open>
  Claim C4, as amended. The records that the response parsing returns for a parsed
  response are built, one each and in order, from the items of the response that are
  dicts with a truthy \<open>repo_name\<close>. Each record carries its item's \<open>repo_name\<close> and, as
  category, the value of its item's \<open>category\<close> key, unchanged and whatever it is, or
  \<open>other\<close> when the item has no such key. When the response text fails JSON parsing,
  the records returned are fallback records, with the category \<open>other\<close>. There is no
  membership check.
\<close>

theorem C4_category_passthrough:
  "(\<forall>results ds.
      loads (strip_fences text) = Some results \<and>
      parse_batch_response cats loads text repos = Inr ds \<longrightarrow>
        map (\<lambda>d. (map_of d (ascii ''repo_name''), map_of d (ascii ''category''))) ds =
        map (\<lambda>item. (map_of item (ascii ''repo_name''),
                      Some (case map_of item (ascii ''category'') of
                              None \<Rightarrow> PStr (ascii ''other'')
                            | Some v \<Rightarrow> v)))
          (kept_items (case results of PList xs \<Rightarrow> xs | v \<Rightarrow> [v]))) \<and>
   (\<forall>ds d.
      loads (strip_fences text) = None \<and>
      parse_batch_response cats loads text repos = Inr ds \<and> d \<in> set ds \<longrightarrow>
        map_of d (ascii ''category'') = Some (PStr (ascii ''other'')))"
proof (intro conjI allI impI)
  fix results ds
  assume a: "loads (strip_fences text) = Some results \<and>
      parse_batch_response cats loads text repos = Inr ds"
  let ?items = "case results of PList xs \<Rightarrow> xs | v \<Rightarrow> [v]"
  from a have "validate_results cats repos ?items = Inr ds"
    by (auto simp: parse_batch_response_def)
  from validate_results_kept[OF this] have ds:
    "ds = map (\<lambda>item. validated_result cats repos item (dict_get item (ascii ''repo_name'') PNone))
            (kept_items ?items)" .
  have "\<forall>item \<in> set (kept_items ?items).
      (map_of (validated_result cats repos item (dict_get item (ascii ''repo_name'') PNone))
         (ascii ''repo_name''),
       map_of (validated_result cats repos item (dict_get item (ascii ''repo_name'') PNone))
         (ascii ''category'')) =
      (map_of item (ascii ''repo_name''),
       Some (case map_of item (ascii ''category'') of
               None \<Rightarrow> PStr (ascii ''other'') | Some v \<Rightarrow> v))"
  proof
    fix item assume "item \<in> set (kept_items ?items)"
    from kept_item_repo_name[OF this] have
      rn: "Some (dict_get item (ascii ''repo_name'') PNone) = map_of item (ascii ''repo_name'')"
      by simp
    have ct: "dict_get item (ascii ''category'') (PStr (ascii ''other'')) =
        (case map_of item (ascii ''category'') of
           None \<Rightarrow> PStr (ascii ''other'') | Some v \<Rightarrow> v)"
      by (simp add: dict_get_def)
    show "(map_of (validated_result cats repos item (dict_get item (ascii ''repo_name'') PNone))
         (ascii ''repo_name''),
       map_of (validated_result cats repos item (dict_get item (ascii ''repo_name'') PNone))
         (ascii ''category'')) =
      (map_of item (ascii ''repo_name''),
       Some (case map_of item (ascii ''category'') of
               None \<Rightarrow> PStr (ascii ''other'') | Some v \<Rightarrow> v))"
      unfolding validated_result_repo_name validated_result_category rn ct ..
  qed
  then show "map (\<lambda>d. (map_of d (ascii ''repo_name''), map_of d (ascii ''category''))) ds =
        map (\<lambda>item. (map_of item (ascii ''repo_name''),
                      Some (case map_of item (ascii ''category'') of
                              None \<Rightarrow> PStr (ascii ''other'')
                            | Some v \<Rightarrow> v)))
          (kept_items ?items)"
    unfolding ds by simp
next
  fix ds d
  assume a: "loads (strip_fences text) = None \<and>
      parse_batch_response cats loads text repos = Inr ds \<and> d \<in> set ds"
  then have "map_raising (fallback_record cats) repos = Inr ds"
    by (auto simp: parse_batch_response_def fallback_summaries_def)
  from map_raising_member[OF this] a obtain r where "fallback_record cats r = Inr d" by blast
  then show "map_of d (ascii ''category'') = Some (PStr (ascii ''other''))"
    by (rule fallback_record_category)
qed

text \<open>The response item with the category \<open>banana\<close>: its record has the category \<open>banana\<close>.\<close>

theorem C4_category_passthrough_witness:
  "(\<lambda>t. Some banana_response) (strip_fences (ascii ''[...]'')) = Some banana_response \<and>
   (\<exists>d. parse_batch_response sample_categories (\<lambda>t. Some banana_response) (ascii ''[...]'')
           [plain_repo (ascii ''a/b'')] = Inr [d] \<and>
        map_of d (ascii ''repo_name'') = Some (PStr (ascii ''a/b'')) \<and>
        map_of d (ascii ''category'') = Some (PStr (ascii ''banana'')))"
proof -
  obtain d where p: "parse_batch_response sample_categories (\<lambda>t. Some banana_response)
      (ascii ''[...]'') [plain_repo (ascii ''a/b'')] = Inr [d]"
    by (simp add: parse_batch_response_def banana_response_def dict_get_def Let_def)
  have l: "(\<lambda>t. Some banana_response) (strip_fences (ascii ''[...]'')) = Some banana_response"
    by simp
  from C4_category_passthrough[of "\<lambda>t. Some banana_response" "ascii ''[...]''"
      sample_categories "[plain_repo (ascii ''a/b'')]"] l p
  have "map (\<lambda>d. (map_of d (ascii ''repo_name''), map_of d (ascii ''category''))) [d] =
        map (\<lambda>item. (map_of item (ascii ''repo_name''),
                      Some (case map_of item (ascii ''category'') of
                              None \<Rightarrow> PStr (ascii ''other'')
                            | Some v \<Rightarrow> v)))
          (kept_items (case banana_response of PList xs \<Rightarrow> xs | v \<Rightarrow> [v]))"
    by blast
  then have "map_of d (ascii ''repo_name'') = Some (PStr (ascii ''a/b'')) \<and>
        map_of d (ascii ''category'') = Some (PStr (ascii ''banana''))"
    by (simp add: banana_response_def dict_get_def)
  with l p show ?thesis by blast
qed

section \<open>Properties of the Telegram sender\<close>

lemma sublist_set: "sublist xs ys \<Longrightarrow> set xs \<subseteq> set ys"
  by (auto simp: sublist_def)

lemma sublist_in_suffix: "sublist l ys \<Longrightarrow> sublist l (xs @ ys)"
  by (auto simp: sublist_def) (metis append.assoc)

lemma sublist_py_join: "l \<in> set ls \<Longrightarrow> sublist l (py_join sep ls)"
proof (induction sep ls rule: py_join.induct)
  case (1 sep)
  then show ?case by simp
next
  case (2 sep x)
  then show ?case by simp
next
  case (3 sep x y ys)
  show ?case
  proof (cases "l = x")
    case True
    then show ?thesis by simp
  next
    case False
    with 3 have "sublist l (py_join sep (y # ys))" by simp
    then have "sublist l ((x @ sep) @ py_join sep (y # ys))"
      by (rule sublist_in_suffix)
    then show ?thesis by simp
  qed
qed

lemma sublist_in_line:
  "l \<in> set ls \<Longrightarrow> sublist n l \<Longrightarrow> sublist n (py_join sep ls)"
  using sublist_py_join sublist_order.order.trans by blast

lemma format_repo_line_returns:
  "(\<exists>l. format_repo_line r = Inr l) \<longleftrightarrow> stars_delta r \<noteq> PyNone"
  by (cases "stars_delta r") (simp_all add: format_repo_line_def Let_def)



lemma format_repo_item_returns:
  "(\<exists>l. format_repo_item i r = Inr l) \<longleftrightarrow> summary_or_description r \<noteq> None"
  by (cases "summary_or_description r") (simp_all add: format_repo_item_def Let_def)


lemma name_in_repo_line:
  assumes "format_repo_line r = Inr l"
  shows "sublist (repo_name r) l"
proof -
  from assms have "\<exists>ss. l = ([0x2022] @ ascii '' ['') @ repo_name r @ ss"
    by (cases "get_or 0 (stars_delta r)") (auto simp: format_repo_line_def Let_def)
  then show ?thesis by (metis sublist_appendI)
qed

lemma name_in_repo_item:
  assumes "format_repo_item i r = Inr l"
  shows "sublist (repo_name r) l"
proof -
  from assms have "\<exists>ss. l = (item_icon i @ ascii '' *['') @ repo_name r @ ss"
    by (cases "summary_or_description r") (auto simp: format_repo_item_def Let_def)
  then show ?thesis by (metis sublist_appendI)
qed


lemma enumerate_member:
  assumes "r \<in> set xs"
  shows "\<exists>i. (i, r) \<in> set (List.enumerate n xs)"
proof -
  from assms obtain k where "k < length xs" "xs ! k = r"
    by (auto simp: in_set_conv_nth)
  then have "(n + k, r) \<in> set (List.enumerate n xs)"
    by (auto simp: in_set_enumerate_eq)
  then show ?thesis ..
qed

lemma enumerate_snd: "(i, r) \<in> set (List.enumerate n xs) \<Longrightarrow> r \<in> set xs"
  by (auto simp: in_set_enumerate_eq)

lemma report_rising_returns:
  "(\<exists>ls. report_rising trends = Inr ls) \<longleftrightarrow>
     (\<forall>r \<in> set (rising_top5 trends). stars_delta r \<noteq> PyNone)"
proof (cases "map_raising format_repo_line (rising_top5 trends)")
  case (Inl e)
  with map_raising_Inl[of format_repo_line "rising_top5 trends"]
  obtain r e' where "r \<in> set (rising_top5 trends)" "format_repo_line r = Inl e'" by auto
  with format_repo_line_returns[of r] have "\<exists>r \<in> set (rising_top5 trends). stars_delta r = PyNone"
    by auto
  moreover from this Inl have "report_rising trends = Inl e"
    by (auto simp: report_rising_def Let_def)
  ultimately show ?thesis by auto
next
  case (Inr ls)
  then have "\<forall>r \<in> set (rising_top5 trends). \<exists>l. format_repo_line r = Inr l"
    using map_raising_image by fastforce
  then have "\<forall>r \<in> set (rising_top5 trends). stars_delta r \<noteq> PyNone"
    using format_repo_line_returns by blast
  moreover from Inr have "\<exists>ls. report_rising trends = Inr ls"
    by (auto simp: report_rising_def Let_def)
  ultimately show ?thesis by blast
qed

lemma report_new_returns:
  "(\<exists>ls. report_new trends = Inr ls) \<longleftrightarrow>
     (\<forall>r \<in> set (take 5 (new_entries trends)). stars_delta r \<noteq> PyNone)"
proof (cases "map_raising format_repo_line (take 5 (new_entries trends))")
  case (Inl e)
  with map_raising_Inl[of format_repo_line "take 5 (new_entries trends)"]
  obtain r e' where "r \<in> set (take 5 (new_entries trends))" "format_repo_line r = Inl e'"
    by auto
  with format_repo_line_returns[of r]
  have "\<exists>r \<in> set (take 5 (new_entries trends)). stars_delta r = PyNone"
    by auto
  moreover from this Inl have "report_new trends = Inl e"
    by (auto simp: report_new_def Let_def)
  ultimately show ?thesis by auto
next
  case (Inr ls)
  then have "\<forall>r \<in> set (take 5 (new_entries trends)). \<exists>l. format_repo_line r = Inr l"
    using map_raising_image by fastforce
  then have "\<forall>r \<in> set (take 5 (new_entries trends)). stars_delta r \<noteq> PyNone"
    using format_repo_line_returns by blast
  moreover from Inr have "\<exists>ls. report_new trends = Inr ls"
    by (auto simp: report_new_def Let_def)
  ultimately show ?thesis by blast
qed

lemma report_top_returns:
  "(\<exists>ls. report_top trends = Inr ls) \<longleftrightarrow>
     (\<forall>r \<in> set (take 10 (top_20 trends)). summary_or_description r \<noteq> None)"
proof (cases "map_raising (\<lambda>(i, r). format_repo_item i r)
                (List.enumerate 1 (take 10 (top_20 trends)))")
  case (Inl e)
  with map_raising_Inl[of "\<lambda>(i, r). format_repo_item i r"
      "List.enumerate 1 (take 10 (top_20 trends))"]
  obtain i r e' where ir: "(i, r) \<in> set (List.enumerate 1 (take 10 (top_20 trends)))"
    and "format_repo_item i r = Inl e'" by auto
  with format_repo_item_returns[of i r] have "summary_or_description r = None" by auto
  with enumerate_snd[OF ir]
  have "\<exists>r \<in> set (take 10 (top_20 trends)). summary_or_description r = None" by blast
  moreover from this Inl have "report_top trends = Inl e"
    by (auto simp: report_top_def Let_def)
  ultimately show ?thesis by auto
next
  case (Inr ls)
  have "\<forall>r \<in> set (take 10 (top_20 trends)). summary_or_description r \<noteq> None"
  proof
    fix r assume "r \<in> set (take 10 (top_20 trends))"
    from enumerate_member[OF this] obtain i where
      "(i, r) \<in> set (List.enumerate 1 (take 10 (top_20 trends)))" by blast
    from map_raising_image[OF Inr this] have "\<exists>l. format_repo_item i r = Inr l" by auto
    then show "summary_or_description r \<noteq> None" by (simp add: format_repo_item_returns)
  qed
  moreover from Inr have "\<exists>ls. report_top trends = Inr ls"
    by (auto simp: report_top_def Let_def)
  ultimately show ?thesis by blast
qed

lemma format_report_returns:
  "(\<exists>message. format_report trends date = Inr message) \<longleftrightarrow>
     (\<forall>r \<in> set (rising_top5 trends) \<union> set (take 5 (new_entries trends)).
        stars_delta r \<noteq> PyNone) \<and>
     (\<forall>r \<in> set (take 10 (top_20 trends)). summary_or_description r \<noteq> None)"
proof -
  have "(\<exists>message. format_report trends date = Inr message) \<longleftrightarrow>
        (\<exists>l1. report_rising trends = Inr l1) \<and> (\<exists>l2. report_new trends = Inr l2) \<and>
        (\<exists>l3. report_top trends = Inr l3)"
    by (cases "report_rising trends"; cases "report_new trends"; cases "report_top trends")
       (simp_all add: format_report_def)
  then show ?thesis
    unfolding report_rising_returns report_new_returns report_top_returns by blast
qed


lemma format_report_Inr:
  assumes "format_report trends date = Inr message"
  obtains l1 l2 l3 where "report_rising trends = Inr l1" and "report_new trends = Inr l2"
    and "report_top trends = Inr l3"
    and "message = py_join (ascii ''\<newline>'')
           (report_header trends date @ l1 @ l2 @ l3 @ report_footer)"
  using assms
  by (cases "report_rising trends"; cases "report_new trends"; cases "report_top trends")
     (simp_all add: format_report_def)

lemma rising_line_member:
  assumes "report_rising trends = Inr l1" and "r \<in> set (rising_top5 trends)"
  shows "\<exists>l \<in> set l1. format_repo_line r = Inr l"
proof -
  from assms(2) have ne: "rising_top5 trends \<noteq> []" by auto
  with assms(1) have "\<exists>ls. map_raising format_repo_line (rising_top5 trends) = Inr ls \<and>
      set ls \<subseteq> set l1"
    by (cases "map_raising format_repo_line (rising_top5 trends)")
       (auto simp: report_rising_def Let_def)
  then obtain ls where ls: "map_raising format_repo_line (rising_top5 trends) = Inr ls"
    and l1: "set ls \<subseteq> set l1" by blast
  from map_raising_image[OF ls assms(2)] l1 show ?thesis by blast
qed

lemma new_line_member:
  assumes "report_new trends = Inr l2" and "r \<in> set (take 5 (new_entries trends))"
  shows "\<exists>l \<in> set l2. format_repo_line r = Inr l"
proof -
  from assms(2) have ne: "take 5 (new_entries trends) \<noteq> []" by auto
  with assms(1) have "\<exists>ls. map_raising format_repo_line (take 5 (new_entries trends)) = Inr ls \<and>
      set ls \<subseteq> set l2"
    by (cases "map_raising format_repo_line (take 5 (new_entries trends))")
       (auto simp: report_new_def Let_def)
  then obtain ls where
    ls: "map_raising format_repo_line (take 5 (new_entries trends)) = Inr ls"
    and l2: "set ls \<subseteq> set l2" by blast
  from map_raising_image[OF ls assms(2)] l2 show ?thesis by blast
qed

lemma top_line_member:
  assumes "report_top trends = Inr l3" and "r \<in> set (take 10 (top_20 trends))"
  shows "\<exists>l \<in> set l3. \<exists>i. format_repo_item i r = Inr l"
proof -
  from assms(2) have ne: "take 10 (top_20 trends) \<noteq> []" by auto
  with assms(1) have "\<exists>ls. map_raising (\<lambda>(i, r). format_repo_item i r)
           (List.enumerate 1 (take 10 (top_20 trends))) = Inr ls \<and> set ls \<subseteq> set l3"
    by (cases "map_raising (\<lambda>(i, r). format_repo_item i r)
                 (List.enumerate 1 (take 10 (top_20 trends)))")
       (auto simp: report_top_def Let_def)
  then obtain ls where
    ls: "map_raising (\<lambda>(i, r). format_repo_item i r)
           (List.enumerate 1 (take 10 (top_20 trends))) = Inr ls"
    and l3: "set ls \<subseteq> set l3" by blast
  from enumerate_member[OF assms(2)] obtain i where
    "(i, r) \<in> set (List.enumerate 1 (take 10 (top_20 trends)))" by blast
  from map_raising_image[OF ls this] l3 show ?thesis by auto
qed

lemma rising_shown:
  assumes "format_report trends date = Inr message" and "r \<in> set (rising_top5 trends)"
  shows "sublist (repo_name r) message"
proof -
  from assms(1) obtain l1 l2 l3 where r1: "report_rising trends = Inr l1"
    and m: "message = py_join (ascii ''\<newline>'')
           (report_header trends date @ l1 @ l2 @ l3 @ report_footer)"
    by (rule format_report_Inr)
  from rising_line_member[OF r1 assms(2)] obtain l where
    l: "l \<in> set l1" "format_repo_line r = Inr l" by blast
  from l(1) have "l \<in> set (report_header trends date @ l1 @ l2 @ l3 @ report_footer)"
    by simp
  then show ?thesis unfolding m
    by (rule sublist_in_line) (rule name_in_repo_line[OF l(2)])
qed

lemma new_shown:
  assumes "format_report trends date = Inr message"
    and "r \<in> set (take 5 (new_entries trends))"
  shows "sublist (repo_name r) message"
proof -
  from assms(1) obtain l1 l2 l3 where r2: "report_new trends = Inr l2"
    and m: "message = py_join (ascii ''\<newline>'')
           (report_header trends date @ l1 @ l2 @ l3 @ report_footer)"
    by (rule format_report_Inr)
  from new_line_member[OF r2 assms(2)] obtain l where
    l: "l \<in> set l2" "format_repo_line r = Inr l" by blast
  from l(1) have "l \<in> set (report_header trends date @ l1 @ l2 @ l3 @ report_footer)"
    by simp
  then show ?thesis unfolding m
    by (rule sublist_in_line) (rule name_in_repo_line[OF l(2)])
qed

lemma top_pick_shown:
  assumes "format_report trends date = Inr message"
    and "r \<in> set (take 10 (top_20 trends))"
  shows "sublist (repo_name r) message"
proof -
  from assms(1) obtain l1 l2 l3 where r3: "report_top trends = Inr l3"
    and m: "message = py_join (ascii ''\<newline>'')
           (report_header trends date @ l1 @ l2 @ l3 @ report_footer)"
    by (rule format_report_Inr)
  from top_line_member[OF r3 assms(2)] obtain l i where
    l: "l \<in> set l3" "format_repo_item i r = Inr l" by blast
  from l(1) have "l \<in> set (report_header trends date @ l1 @ l2 @ l3 @ report_footer)"
    by simp
  then show ?thesis unfolding m
    by (rule sublist_in_line) (rule name_in_repo_item[OF l(2)])
qed

lemma format_report_cut:
  "format_report (trends\<lparr>new_entries := take 5 (new_entries trends),
                          top_20 := take 10 (top_20 trends)\<rparr>) date =
   format_report trends date"
proof -
  let ?cut = "trends\<lparr>new_entries := take 5 (new_entries trends),
                     top_20 := take 10 (top_20 trends)\<rparr>"
  have a: "report_rising ?cut = report_rising trends" by (simp add: report_rising_def)
  have b: "report_new ?cut = report_new trends" by (simp add: report_new_def)
  have c: "report_top ?cut = report_top trends" by (simp add: report_top_def)
  have d: "report_header ?cut date = report_header trends date"
    by (simp add: report_header_def)
  show ?thesis unfolding format_report_def a b c d ..
qed

lemma k_not_in_digest:
  "case format_report eleven_picks (ascii ''2026-01-15'') of
     Inl e \<Rightarrow> False
   | Inr message \<Rightarrow> (107::nat) \<notin> set message"
  by (simp add: format_report_def report_header_def report_rising_def report_new_def
        report_top_def report_footer_def eleven_picks_def plain_repo_def Let_def
        enumerate_eq_zip upt_rec format_repo_item_def format_repo_line_def item_icon_def
        str_int_def digits.simps summary_or_description_def ascii_def)

text \<open>
  Claim C2 as stated fails in both directions. With eleven top picks and a rising
  repository that is no top pick, the message is formatted; the eleventh pick is passed
  to \<open>record_notification\<close> and does not occur in the message, and the rising
  repository occurs in the message and is not passed to \<open>record_notification\<close>.
\<close>

theorem C2_counterexample:
  "ascii ''o/k11'' \<in> set (notified_repos eleven_picks) \<and>
   \<not> shown_in (ascii ''o/k11'') (format_report eleven_picks (ascii ''2026-01-15'')) \<and>
   shown_in (ascii ''w/v'') (format_report eleven_picks (ascii ''2026-01-15'')) \<and>
   ascii ''w/v'' \<notin> set (notified_repos eleven_picks)"
proof -
  obtain message where m: "format_report eleven_picks (ascii ''2026-01-15'') = Inr message"
    and k: "(107::nat) \<notin> set message"
    using k_not_in_digest
    by (cases "format_report eleven_picks (ascii ''2026-01-15'')") auto
  have "ascii ''o/k11'' \<in> set (notified_repos eleven_picks)"
    by (simp add: notified_repos_def eleven_picks_def plain_repo_def)
  moreover have "\<not> sublist (ascii ''o/k11'') message"
  proof
    assume "sublist (ascii ''o/k11'') message"
    then have "set (ascii ''o/k11'') \<subseteq> set message" by (rule sublist_set)
    moreover have "(107::nat) \<in> set (ascii ''o/k11'')" by (simp add: ascii_def)
    ultimately show False using k by blast
  qed
  moreover have "sublist (ascii ''w/v'') message"
    using rising_shown[OF m, of "plain_repo (ascii ''w/v'')"]
    by (simp add: eleven_picks_def plain_repo_def)
  moreover have "ascii ''w/v'' \<notin> set (notified_repos eleven_picks)"
    by (simp add: notified_repos_def eleven_picks_def plain_repo_def ascii_def)
  ultimately show ?thesis using m by simp
qed

text \<open>
  Claim C2, as amended. The names the driver passes to \<open>record_notification\<close> are
  the names of all entries of \<open>top_20\<close>. When \<open>_format_report\<close> returns a message,
  the message contains the name of every entry of \<open>rising_top5\<close>, of the first five
  entries of \<open>new_entries\<close> and of the first ten entries of \<open>top_20\<close>, and it is the
  message of the trend result whose \<open>new_entries\<close> is cut to its first five and whose
  \<open>top_20\<close> is cut to its first ten entries. Every entry among the first ten of
  \<open>top_20\<close> is recorded. When \<open>top_20\<close> has at most ten entries, every recorded name
  is in the message; when moreover every entry of \<open>rising_top5\<close> and of the first
  five \<open>new_entries\<close> has the name of an entry of \<open>top_20\<close>, the recorded names are
  exactly the names of the entries the message renders.
\<close>

theorem C2_recorded_and_shown:
  assumes "format_report trends date = Inr message"
  shows "set (notified_repos trends) = repo_name ` set (top_20 trends) \<and>
   (\<forall>r \<in> set (rising_top5 trends) \<union> set (take 5 (new_entries trends)) \<union>
           set (take 10 (top_20 trends)). sublist (repo_name r) message) \<and>
   format_report (trends\<lparr>new_entries := take 5 (new_entries trends),
                          top_20 := take 10 (top_20 trends)\<rparr>) date = Inr message \<and>
   (\<forall>r \<in> set (take 10 (top_20 trends)). repo_name r \<in> set (notified_repos trends)) \<and>
   (length (top_20 trends) \<le> 10 \<longrightarrow>
      (\<forall>n \<in> set (notified_repos trends). sublist n message)) \<and>
   (length (top_20 trends) \<le> 10 \<and>
    repo_name ` (set (rising_top5 trends) \<union> set (take 5 (new_entries trends)))
      \<subseteq> repo_name ` set (top_20 trends) \<longrightarrow>
      set (notified_repos trends) =
        repo_name ` (set (rising_top5 trends) \<union> set (take 5 (new_entries trends)) \<union>
                     set (take 10 (top_20 trends))))"
proof (intro conjI ballI impI)
  show "set (notified_repos trends) = repo_name ` set (top_20 trends)"
    by (simp add: notified_repos_def)
next
  fix r
  assume "r \<in> set (rising_top5 trends) \<union> set (take 5 (new_entries trends)) \<union>
              set (take 10 (top_20 trends))"
  then show "sublist (repo_name r) message"
    using rising_shown[OF assms] new_shown[OF assms] top_pick_shown[OF assms] by blast
next
  show "format_report (trends\<lparr>new_entries := take 5 (new_entries trends),
                          top_20 := take 10 (top_20 trends)\<rparr>) date = Inr message"
    using assms by (simp only: format_report_cut)
next
  fix r assume "r \<in> set (take 10 (top_20 trends))"
  then show "repo_name r \<in> set (notified_repos trends)"
    by (auto simp: notified_repos_def dest: in_set_takeD)
next
  fix n assume le: "length (top_20 trends) \<le> 10" and n: "n \<in> set (notified_repos trends)"
  from n obtain r where r: "r \<in> set (top_20 trends)" and nr: "n = repo_name r"
    by (auto simp: notified_repos_def)
  from le r have "r \<in> set (take 10 (top_20 trends))" by simp
  with nr show "sublist n message"
    by (simp add: top_pick_shown[OF assms])
next
  assume a: "length (top_20 trends) \<le> 10 \<and>
    repo_name ` (set (rising_top5 trends) \<union> set (take 5 (new_entries trends)))
      \<subseteq> repo_name ` set (top_20 trends)"
  then have "take 10 (top_20 trends) = top_20 trends" by simp
  with a show "set (notified_repos trends) =
        repo_name ` (set (rising_top5 trends) \<union> set (take 5 (new_entries trends)) \<union>
                     set (take 10 (top_20 trends)))"
    by (auto simp: notified_repos_def image_Un)
qed

text \<open>
  Two top picks, no rising and no new repository: the message is formatted, and the
  first pick is recorded and shown.
\<close>

theorem C2_recorded_and_shown_witness:
  "\<exists>message. format_report two_picks (ascii ''2026-01-15'') = Inr message \<and>
     plain_repo (ascii ''a/b'') \<in> set (take 10 (top_20 two_picks)) \<and>
     length (top_20 two_picks) \<le> 10 \<and>
     repo_name ` (set (rising_top5 two_picks) \<union> set (take 5 (new_entries two_picks)))
       \<subseteq> repo_name ` set (top_20 two_picks) \<and>
     ascii ''a/b'' \<in> set (notified_repos two_picks) \<and>
     sublist (ascii ''a/b'') message"
proof -
  have "\<exists>message. format_report two_picks (ascii ''2026-01-15'') = Inr message"
    unfolding format_report_returns
    by (simp add: two_picks_def plain_repo_def summary_or_description_def)
  then obtain message where m: "format_report two_picks (ascii ''2026-01-15'') = Inr message" ..
  from C2_recorded_and_shown[OF m] m show ?thesis
    by (simp add: two_picks_def plain_repo_def notified_repos_def)
qed






section \<open>Properties of the pipeline driver\<close>

lemma and_then_Inl [simp]: "and_then (tr, Inl e) f = (tr, Inl e)"
  by (simp add: and_then_def)

lemma and_then_Inr [simp]: "and_then (tr, Inr x) f = (tr @ fst (f x), snd (f x))"
  by (simp add: and_then_def split: prod.splits)

lemma and_then_events:
  assumes "\<forall>ev \<in> set (fst m). P ev" and "\<And>x. \<forall>ev \<in> set (fst (f x)). P ev"
  shows "\<forall>ev \<in> set (fst (and_then m f)). P ev"
proof (cases m)
  case (Pair tr r)
  with assms show ?thesis by (cases r) auto
qed

lemma steps_1_to_5_events:
  "\<forall>ev \<in> set (fst (steps_1_to_5 cfg env)). 1 \<le> step_of ev \<and> step_of ev \<le> 5"
  unfolding steps_1_to_5_def Let_def
  by (intro and_then_events) (simp_all add: call_def call_unit_def)

lemma step_7_trace:
  "fst (step_7 cfg env trends) =
     CallSendReport trends (today cfg) #
     (if (\<exists>result v. telegram_send_report env trends (today cfg) = Inr result \<and>
            map_of result (ascii ''success'') = Some v \<and> truthy v) \<and> top_20 trends \<noteq> []
      then [CallRecordNotification (notified_repos trends)] else [])"
  by (cases "telegram_send_report env trends (today cfg)")
     (auto simp: step_7_def call_def call_unit_def notified_repos_def split: option.splits)

lemma step_7_continues:
  "telegram_send_report env trends (today cfg) = Inr result \<Longrightarrow>
   map_of result (ascii ''success'') = Some v \<Longrightarrow> \<not> truthy v \<Longrightarrow>
   snd (step_7 cfg env trends) = Inr ()"
  by (simp add: step_7_def call_def)

lemma steps_8_to_9_trace:
  "fst (steps_8_to_9 cfg env trends) =
     CallGenerateAll trends (today cfg) #
     (case generate_all env trends (today cfg) of
        Inl e \<Rightarrow> []
      | Inr web_files \<Rightarrow> [CallCleanupOldData (DB_RETENTION_DAYS cfg)])"
  by (cases "generate_all env trends (today cfg)";
      cases "cleanup_old_data env (DB_RETENTION_DAYS cfg)")
     (auto simp: steps_8_to_9_def call_def)

lemma try_body_raised:
  "snd (steps_1_to_5 cfg env) = Inl e \<Longrightarrow>
   try_body cfg env = (fst (steps_1_to_5 cfg env), Inl e)"
  by (cases "steps_1_to_5 cfg env") (simp add: try_body_def)

lemma try_body_trace:
  "snd (steps_1_to_5 cfg env) = Inr trends \<Longrightarrow>
   fst (try_body cfg env) =
     fst (steps_1_to_5 cfg env) @ [CallGenerateEmailHtml trends (today cfg)] @
     (case generate_email_html env trends (today cfg) of
        Some e \<Rightarrow> []
      | None \<Rightarrow>
          fst (step_7 cfg env trends) @
          (case snd (step_7 cfg env trends) of
             Inl e \<Rightarrow> []
           | Inr u \<Rightarrow> fst (steps_8_to_9 cfg env trends)))"
  by (cases "steps_1_to_5 cfg env"; cases "step_7 cfg env trends";
      cases "snd (step_7 cfg env trends)")
     (auto simp: try_body_def step_6_def call_unit_def split: option.splits)

lemma main_trace:
  "fst (main cfg env) =
     (if \<not> check_environment cfg then []
      else if new_database env \<noteq> None then [CallDatabase]
      else if init_db env \<noteq> None then [CallDatabase, CallInitDb]
      else [CallDatabase, CallInitDb] @ fst (try_body cfg env) @ [CallClose])"
  by (auto simp: main_def try_statement_def split: option.splits prod.splits)



lemma try_body_events:
  "\<forall>ev \<in> set (fst (try_body cfg env)). 1 \<le> step_of ev \<and> step_of ev \<le> 9"
proof (cases "snd (steps_1_to_5 cfg env)")
  case (Inl e)
  from try_body_raised[OF this] steps_1_to_5_events[of cfg env] show ?thesis by auto
next
  case (Inr trends)
  from try_body_trace[OF this] steps_1_to_5_events[of cfg env] show ?thesis
    by (auto simp: step_7_trace steps_8_to_9_trace split: option.splits sum.splits)
qed



lemma main_step_7_events:
  "{ev \<in> set (fst (main cfg env)). step_of ev = 7} =
     (\<Union>trends \<in> {t. reaches_step_7 cfg env t}. set (fst (step_7 cfg env trends)))"
proof (cases "check_environment cfg \<and> new_database env = None \<and> init_db env = None")
  case False
  then show ?thesis by (auto simp: main_trace reaches_step_7_def)
next
  case ok: True
  show ?thesis
  proof (cases "snd (steps_1_to_5 cfg env)")
    case (Inl e)
    from try_body_raised[OF this] steps_1_to_5_events[of cfg env] ok Inl show ?thesis
      by (auto simp: main_trace reaches_step_7_def)
  next
    case (Inr trends)
    from try_body_trace[OF this] steps_1_to_5_events[of cfg env] ok Inr show ?thesis
      by (auto simp: main_trace reaches_step_7_def step_7_trace steps_8_to_9_trace
               split: option.splits sum.splits)
  qed
qed


lemma reaches_step_7_unique:
  "reaches_step_7 cfg env t \<Longrightarrow> reaches_step_7 cfg env t' \<Longrightarrow> t = t'"
  by (simp add: reaches_step_7_def)

lemma send_report_called:
  "CallSendReport trends date \<in> set (fst (main cfg env)) \<longleftrightarrow>
     reaches_step_7 cfg env trends \<and> date = today cfg"
proof -
  have "CallSendReport trends date \<in> set (fst (main cfg env)) \<longleftrightarrow>
        CallSendReport trends date \<in> {ev \<in> set (fst (main cfg env)). step_of ev = 7}"
    by simp
  also have "\<dots> \<longleftrightarrow> reaches_step_7 cfg env trends \<and> date = today cfg"
    unfolding main_step_7_events by (auto simp: step_7_trace)
  finally show ?thesis .
qed

lemma record_notification_called:
  "CallRecordNotification names \<in> set (fst (main cfg env)) \<longleftrightarrow>
     (\<exists>trends. reaches_step_7 cfg env trends \<and>
        (\<exists>result v. telegram_send_report env trends (today cfg) = Inr result \<and>
           map_of result (ascii ''success'') = Some v \<and> truthy v) \<and>
        top_20 trends \<noteq> [] \<and> names = notified_repos trends)"
proof -
  have "CallRecordNotification names \<in> set (fst (main cfg env)) \<longleftrightarrow>
        CallRecordNotification names \<in> {ev \<in> set (fst (main cfg env)). step_of ev = 7}"
    by simp
  also have "\<dots> \<longleftrightarrow> (\<exists>trends. reaches_step_7 cfg env trends \<and>
        (\<exists>result v. telegram_send_report env trends (today cfg) = Inr result \<and>
           map_of result (ascii ''success'') = Some v \<and> truthy v) \<and>
        top_20 trends \<noteq> [] \<and> names = notified_repos trends)"
    unfolding main_step_7_events by (auto simp: step_7_trace split: if_splits)
  finally show ?thesis .
qed

lemma generate_all_called:
  assumes "reaches_step_7 cfg env trends" and "snd (step_7 cfg env trends) = Inr u"
  shows "CallGenerateAll trends (today cfg) \<in> set (fst (main cfg env))"
proof -
  from assms(1) have r: "snd (steps_1_to_5 cfg env) = Inr trends"
    and g: "generate_email_html env trends (today cfg) = None"
    and ok: "check_environment cfg" "new_database env = None" "init_db env = None"
    by (simp_all add: reaches_step_7_def)
  from try_body_trace[OF r] g assms(2) ok show ?thesis
    by (simp add: main_trace steps_8_to_9_trace)
qed

text \<open>
  Claim C3. In every run, \<open>record_notification\<close> is called exactly when the Telegram
  send was made and its result reports success and \<open>top_20\<close> is not empty, and then
  with the names of \<open>top_20\<close>. When the send returns a result that reports failure,
  no notification is recorded and the run goes on to the site generation.
\<close>

theorem C3_record_iff_success:
  "(CallRecordNotification names \<in> set (fst (main cfg env)) \<longleftrightarrow>
      (\<exists>trends result v.
          CallSendReport trends (today cfg) \<in> set (fst (main cfg env)) \<and>
          telegram_send_report env trends (today cfg) = Inr result \<and>
          map_of result (ascii ''success'') = Some v \<and> truthy v \<and>
          top_20 trends \<noteq> [] \<and> names = map repo_name (top_20 trends))) \<and>
   (\<forall>trends result v.
      CallSendReport trends (today cfg) \<in> set (fst (main cfg env)) \<and>
      telegram_send_report env trends (today cfg) = Inr result \<and>
      map_of result (ascii ''success'') = Some v \<and> \<not> truthy v \<longrightarrow>
        (\<forall>recorded. CallRecordNotification recorded \<notin> set (fst (main cfg env))) \<and>
        CallGenerateAll trends (today cfg) \<in> set (fst (main cfg env)))"
proof (intro conjI allI impI)
  show "CallRecordNotification names \<in> set (fst (main cfg env)) \<longleftrightarrow>
      (\<exists>trends result v.
          CallSendReport trends (today cfg) \<in> set (fst (main cfg env)) \<and>
          telegram_send_report env trends (today cfg) = Inr result \<and>
          map_of result (ascii ''success'') = Some v \<and> truthy v \<and>
          top_20 trends \<noteq> [] \<and> names = map repo_name (top_20 trends))"
    unfolding record_notification_called send_report_called notified_repos_def by blast
next
  fix trends result v recorded
  assume a: "CallSendReport trends (today cfg) \<in> set (fst (main cfg env)) \<and>
      telegram_send_report env trends (today cfg) = Inr result \<and>
      map_of result (ascii ''success'') = Some v \<and> \<not> truthy v"
  then have r: "reaches_step_7 cfg env trends" by (simp add: send_report_called)
  show "CallRecordNotification recorded \<notin> set (fst (main cfg env))"
  proof
    assume "CallRecordNotification recorded \<in> set (fst (main cfg env))"
    then obtain t result' v' where t: "reaches_step_7 cfg env t"
      and s: "telegram_send_report env t (today cfg) = Inr result'"
             "map_of result' (ascii ''success'') = Some v'" "truthy v'"
      unfolding record_notification_called by blast
    from reaches_step_7_unique[OF t r] have "t = trends" .
    with s a show False by simp
  qed
next
  fix trends result v
  assume a: "CallSendReport trends (today cfg) \<in> set (fst (main cfg env)) \<and>
      telegram_send_report env trends (today cfg) = Inr result \<and>
      map_of result (ascii ''success'') = Some v \<and> \<not> truthy v"
  then have r: "reaches_step_7 cfg env trends" by (simp add: send_report_called)
  from a have "snd (step_7 cfg env trends) = Inr ()"
    by (auto intro: step_7_continues)
  with r show "CallGenerateAll trends (today cfg) \<in> set (fst (main cfg env))"
    by (rule generate_all_called)
qed

lemma quiet_run:
  "main sample_config quiet_env =
     ([CallDatabase, CallInitDb, CallFetch,
       CallBatchFetchReadmes [plain_repo (ascii ''a/b''), plain_repo (ascii ''c/d'')],
       CallSummarize [plain_repo (ascii ''a/b''), plain_repo (ascii ''c/d'')],
       CallSaveRepoDetails [],
       CallCalculateTrends [plain_repo (ascii ''a/b''), plain_repo (ascii ''c/d'')]
         (ascii ''2026-01-15'') [] 7,
       CallGenerateEmailHtml two_picks (ascii ''2026-01-15''),
       CallSendReport two_picks (ascii ''2026-01-15''),
       CallRecordNotification [ascii ''a/b'', ascii ''c/d''],
       CallGenerateAll two_picks (ascii ''2026-01-15''),
       CallCleanupOldData 90, CallClose], Returned)"
  by (simp add: main_def try_statement_def try_body_def steps_1_to_5_def step_6_def step_7_def
        steps_8_to_9_def call_def call_unit_def check_environment_def sample_config_def
        quiet_env_def slice_to_def merge_readme_def Let_def notified_repos_def two_picks_def
        plain_repo_def)


lemma failing_send_run:
  "fst (main sample_config failing_send_env) =
     [CallDatabase, CallInitDb, CallFetch,
       CallBatchFetchReadmes [plain_repo (ascii ''a/b''), plain_repo (ascii ''c/d'')],
       CallSummarize [plain_repo (ascii ''a/b''), plain_repo (ascii ''c/d'')],
       CallSaveRepoDetails [],
       CallCalculateTrends [plain_repo (ascii ''a/b''), plain_repo (ascii ''c/d'')]
         (ascii ''2026-01-15'') [] 7,
       CallGenerateEmailHtml two_picks (ascii ''2026-01-15''),
       CallSendReport two_picks (ascii ''2026-01-15''),
       CallGenerateAll two_picks (ascii ''2026-01-15''),
       CallCleanupOldData 90, CallClose]"
  by (simp add: main_def try_statement_def try_body_def steps_1_to_5_def step_6_def step_7_def
        steps_8_to_9_def call_def call_unit_def check_environment_def sample_config_def
        quiet_env_def failing_send_env_def slice_to_def merge_readme_def Let_def
        notified_repos_def two_picks_def plain_repo_def)

text \<open>
  A run whose send succeeds records the two names; a run whose send fails records
  nothing and generates the site.
\<close>

theorem C3_record_iff_success_witness:
  "CallSendReport two_picks (today sample_config) \<in> set (fst (main sample_config quiet_env)) \<and>
   telegram_send_report quiet_env two_picks (today sample_config) =
     Inr [(ascii ''success'', PBool True)] \<and>
   CallRecordNotification [ascii ''a/b'', ascii ''c/d'']
     \<in> set (fst (main sample_config quiet_env)) \<and>
   CallSendReport two_picks (today sample_config)
     \<in> set (fst (main sample_config failing_send_env)) \<and>
   CallRecordNotification [ascii ''a/b'', ascii ''c/d'']
     \<notin> set (fst (main sample_config failing_send_env)) \<and>
   CallGenerateAll two_picks (today sample_config)
     \<in> set (fst (main sample_config failing_send_env))"
proof -
  have s1: "CallSendReport two_picks (today sample_config)
              \<in> set (fst (main sample_config quiet_env))"
    by (simp add: quiet_run) (simp add: sample_config_def)
  have r1: "telegram_send_report quiet_env two_picks (today sample_config) =
              Inr [(ascii ''success'', PBool True)]"
    by (simp add: quiet_env_def)
  have n1: "top_20 two_picks \<noteq> [] \<and>
            [ascii ''a/b'', ascii ''c/d''] = map repo_name (top_20 two_picks)"
    by (simp add: two_picks_def plain_repo_def)
  have rec: "CallRecordNotification [ascii ''a/b'', ascii ''c/d'']
               \<in> set (fst (main sample_config quiet_env))"
    using C3_record_iff_success[of "[ascii ''a/b'', ascii ''c/d'']" sample_config quiet_env]
      s1 r1 n1 by auto
  have s2: "CallSendReport two_picks (today sample_config)
              \<in> set (fst (main sample_config failing_send_env))"
    by (simp add: failing_send_run) (simp add: sample_config_def)
  have r2: "telegram_send_report failing_send_env two_picks (today sample_config) =
              Inr [(ascii ''success'', PBool False),
                   (ascii ''message'', PStr (ascii ''Bad Request''))]"
    by (simp add: failing_send_env_def)
  have "(\<forall>recorded. CallRecordNotification recorded
               \<notin> set (fst (main sample_config failing_send_env))) \<and>
        CallGenerateAll two_picks (today sample_config)
           \<in> set (fst (main sample_config failing_send_env))"
    using C3_record_iff_success[of "[]" sample_config failing_send_env] s2 r2
    by auto
  with s1 r1 rec s2 show ?thesis by blast
qed


text \<open>
  Claim C8, as amended. In every run that enters the \<open>try\<close> block (the environment
  check passes, \<open>Database(DB_PATH)\<close> and \<open>init_db\<close> return), \<open>db.close()\<close> is
  called exactly once, as the last call of the run, whether the block completes, is
  interrupted or raises; the run then ends by returning, by \<open>sys.exit(130)\<close> or by
  \<open>sys.exit(1)\<close>.
\<close>

theorem C8_close_once_after_init:
  assumes "check_environment cfg" and "new_database env = None" and "init_db env = None"
  shows "length (filter (\<lambda>ev. ev = CallClose) (fst (main cfg env))) = 1 \<and>
         last (fst (main cfg env)) = CallClose \<and>
         (close env = None \<longrightarrow>
            snd (main cfg env) =
              (case snd (try_body cfg env) of
                 Inr u \<Rightarrow> Returned
               | Inl KeyboardInterrupt \<Rightarrow> SysExit 130
               | Inl (Exception e) \<Rightarrow> SysExit 1))"
proof -
  have "filter (\<lambda>ev. ev = CallClose) (fst (try_body cfg env)) = []"
    using try_body_events[of cfg env] by (auto simp: filter_empty_conv)
  with assms have "length (filter (\<lambda>ev. ev = CallClose) (fst (main cfg env))) = 1 \<and>
         last (fst (main cfg env)) = CallClose"
    by (simp add: main_trace)
  moreover from assms have "close env = None \<longrightarrow>
            snd (main cfg env) =
              (case snd (try_body cfg env) of
                 Inr u \<Rightarrow> Returned
               | Inl KeyboardInterrupt \<Rightarrow> SysExit 130
               | Inl (Exception e) \<Rightarrow> SysExit 1)"
    by (cases "try_body cfg env")
       (auto simp: main_def try_statement_def Let_def split: sum.splits py_exception.splits)
  ultimately show ?thesis by blast
qed

text \<open>
  The run in which every call returns.
\<close>

theorem C8_close_once_after_init_witness:
  "check_environment sample_config \<and> new_database quiet_env = None \<and>
   init_db quiet_env = None \<and>
   length (filter (\<lambda>ev. ev = CallClose) (fst (main sample_config quiet_env))) = 1 \<and>
   last (fst (main sample_config quiet_env)) = CallClose"
proof -
  have h: "check_environment sample_config" "new_database quiet_env = None"
    "init_db quiet_env = None"
    by (simp_all add: check_environment_def sample_config_def quiet_env_def)
  from C8_close_once_after_init[OF h] h show ?thesis by blast
qed

text \<open>
  Claim C8 as stated fails: when \<open>init_db\<close> raises, the store object has been
  created and \<open>main\<close> ends without calling \<open>close\<close>.
\<close>

theorem C8_counterexample:
  "main sample_config failing_init_env =
     ([CallDatabase, CallInitDb], Uncaught (Exception (ascii ''unable to open database file''))) \<and>
   CallDatabase \<in> set (fst (main sample_config failing_init_env)) \<and>
   CallClose \<notin> set (fst (main sample_config failing_init_env))"
  by (simp add: main_def check_environment_def sample_config_def failing_init_env_def
        quiet_env_def)

section \<open>Properties of the site generator\<close>
































section \<open>Properties of the deduplicated top picks\<close>

lemma enrich_repo_name [simp]: "repo_name (enrich shorten enrichment_map entry) = repo_name entry"
  by (simp add: enrich_def split: option.splits)




end
